theory Spec2Isabelle
  imports Complex_Main "HOL-Library.AList" "HOL-Library.Monad_Syntax"
begin

chapter \<open>The replication bridge: a shallow embedding of the server's core\<close>

text \<open>
  The development follows \<^verbatim>\<open>src/app.js\<close> (the session controller, the row-operation
  dispatcher, the DDL translator, the XML decoder and the chunked upload),
  \<^verbatim>\<open>src/services/syncService.js\<close> (the legacy row path and the CSV column mappings) and
  the license service (\<^verbatim>\<open>services/licenseService.js\<close>). Strings are byte lists; the
  wire data the server handles here is ASCII. Exceptions are values of a sum type, the
  socket's outgoing traffic is a list of actions, and everything the process does not own
  (the tenant database, the target store, the clock) is an explicit argument.
\<close>

section \<open>JavaScript values\<close>

text \<open>
  A payload value as it reaches the dispatcher: a JSON scalar, or \<open>undefined\<close> for a
  property that is read but absent. Numbers are integers here; the payload values of the
  row operations are keys, counts and text.
\<close>

datatype jsval = JUndefined | JNull | JBool bool | JNum int | JStr string

text \<open>JavaScript's \<open>ToBoolean\<close>, which \<open>!x\<close>, \<open>x || y\<close> and \<open>if (x)\<close> apply.\<close>

fun truthy :: "jsval \<Rightarrow> bool" where
  "truthy JUndefined = False"
| "truthy JNull = False"
| "truthy (JBool b) = b"
| "truthy (JNum n) = (n \<noteq> 0)"
| "truthy (JStr s) = (s \<noteq> [])"

text \<open>\<open>a || b\<close>: the left operand when it is truthy, the right one otherwise.\<close>

definition js_or :: "jsval \<Rightarrow> jsval \<Rightarrow> jsval" where
  "js_or a b = (if truthy a then a else b)"

text \<open>
  A string-valued field of an event: \<open>None\<close> when the property is missing. \<open>!s\<close> holds
  for a missing and for an empty string.
\<close>

definition present :: "string option \<Rightarrow> bool" where
  "present s = (case s of None \<Rightarrow> False | Some v \<Rightarrow> v \<noteq> [])"

section \<open>License and tenant service\<close>

text \<open>
  One row of the \<open>stores\<close> table as the driver returns it. The expiry is the
  millisecond timestamp of the \<open>Date\<close> built from the column; SQL \<open>NULL\<close> is
  \<open>None\<close>, which \<open>new Date(null)\<close> reads as the epoch.
\<close>

record store_row =
  StoreId :: string
  StoreName :: string
  AdvancedReportAppId :: string
  AdvancedReportLicenseExpire :: "int option"

text \<open>
  The tenant database: whether it can be reached, and its rows. The service itself holds
  one piece of state, \<open>connectionPool\<close>, which is \<open>null\<close> until \<open>initialize\<close> ran.
\<close>

record tenant_db =
  reachable :: bool
  stores :: "store_row list"

record license_service =
  connectionPool :: bool

record store_info =
  si_storeId :: string
  si_storeName :: string
  si_appId :: string
  si_expireDate :: int
  si_daysRemaining :: int

record license_validation =
  isValid :: bool
  isExpired :: bool
  storeInfo :: "store_info option"
  lv_error :: "string option"

text \<open>
  \<open>initialize\<close>: the pool object is created before the connection is tested, so the
  field is set even when the test fails; a pool that is already there is not tested again.
\<close>

definition initialize :: "tenant_db \<Rightarrow> license_service \<Rightarrow> license_service \<times> bool" where
  "initialize db svc =
     (if \<not> connectionPool svc then (svc\<lparr>connectionPool := True\<rparr>, reachable db)
      else (svc, True))"

text \<open>
  \<open>SELECT ... FROM stores WHERE StoreId = ? AND AdvancedReportAppId = ?\<close>: the rows
  matching both parameters, or the driver's error.
\<close>

definition select_store :: "tenant_db \<Rightarrow> string \<Rightarrow> string \<Rightarrow> string + store_row list" where
  "select_store db sid aid =
     (if reachable db
      then Inr (filter (\<lambda>r. StoreId r = sid \<and> AdvancedReportAppId r = aid) (stores db))
      else Inl ''connect ECONNREFUSED'')"

definition expire_ms :: "store_row \<Rightarrow> int" where
  "expire_ms r = (case AdvancedReportLicenseExpire r of None \<Rightarrow> 0 | Some t \<Rightarrow> t)"

definition ms_per_day :: int where
  "ms_per_day = 1000 * 60 * 60 * 24"

text \<open>
  \<open>Math.ceil(x / ms_per_day)\<close> on an integer number of milliseconds, as an integer
  computation: the quotient rounded towards plus infinity.
\<close>

definition ceil_days :: "int \<Rightarrow> int" where
  "ceil_days x = - ((- x) div ms_per_day)"

definition validateAdvancedReportLicense ::
  "tenant_db \<Rightarrow> int \<Rightarrow> license_service \<Rightarrow> string \<Rightarrow> string \<Rightarrow> license_service \<times> license_validation"
where
  "validateAdvancedReportLicense db now svc storeId appId =
     (let (svc', initialized) = initialize db svc in
      if \<not> initialized then
        (svc', \<lparr>isValid = False, isExpired = True, storeInfo = None,
                lv_error = Some ''Database connection failed''\<rparr>)
      else
        (case select_store db storeId appId of
           Inl msg \<Rightarrow>
             (svc', \<lparr>isValid = False, isExpired = True, storeInfo = None, lv_error = Some msg\<rparr>)
         | Inr [] \<Rightarrow>
             (svc', \<lparr>isValid = False, isExpired = True, storeInfo = None,
                     lv_error = Some ''Store not found or invalid AppId''\<rparr>)
         | Inr (store # _) \<Rightarrow>
             (let expireDate = expire_ms store;
                  currentDate = now;
                  expired = (expireDate \<le> currentDate)
              in (svc', \<lparr>isValid = \<not> expired, isExpired = expired,
                     storeInfo = Some \<lparr>si_storeId = StoreId store,
                       si_storeName = StoreName store,
                       si_appId = AdvancedReportAppId store,
                       si_expireDate = expireDate,
                       si_daysRemaining =
                         (if expired then 0 else ceil_days (expireDate - currentDate))\<rparr>,
                     lv_error = None\<rparr>))))"

text \<open>
  \<open>getDatabaseByStoreAndApp\<close>: the database name is the \<open>appId\<close> when the pair has
  a row. It does not initialise the pool: without one it throws, and every throw is
  caught and answered with \<open>null\<close>. A parameter that is \<open>undefined\<close> makes the driver
  throw as well.
\<close>

definition getDatabaseByStoreAndApp ::
  "tenant_db \<Rightarrow> license_service \<Rightarrow> string option \<Rightarrow> string option \<Rightarrow> string option"
where
  "getDatabaseByStoreAndApp db svc storeId appId =
     (if \<not> connectionPool svc then None
      else case (storeId, appId) of
        (Some sid, Some aid) \<Rightarrow>
          (case select_store db sid aid of
             Inr (_ # _) \<Rightarrow> Some aid
           | _ \<Rightarrow> None)
      | _ \<Rightarrow> None)"

section \<open>Sessions and the traffic the server sends\<close>

text \<open>
  The accumulator of one chunked upload, as \<open>csv_bulk_upload_start\<close> creates it: the
  declared name, size and number of chunks, and the chunks received so far, by index.
\<close>

record upload_info =
  ui_appId :: "string option"
  ui_tableName :: string
  ui_fileName :: string
  ui_totalChunks :: nat
  ui_fileSizeBytes :: nat
  ui_rowCount :: nat
  chunks :: "(nat \<times> string) list"

text \<open>
  The state of one connection: the fields the handlers keep on the socket object, all
  unset on a new connection; \<open>fullSyncStatus\<close>, the entry of the module's
  \<open>clientFullSyncStatus\<close> map for this socket; and \<open>csvChunkStorage\<close>, the map of
  pending chunked uploads that the connection handler declares for each socket.
\<close>

record session =
  socket_storeId :: "string option"
  socket_appId :: "string option"
  socket_serviceType :: "string option"
  socket_licenseInfo :: "store_info option"
  fullSyncStatus :: "bool option"
  csvChunkStorage :: "(string \<times> upload_info) list"

definition new_session :: session where
  "new_session = \<lparr>socket_storeId = None, socket_appId = None, socket_serviceType = None,
     socket_licenseInfo = None, fullSyncStatus = None, csvChunkStorage = []\<rparr>"

text \<open>
  The events the server sends, each with the fields of its payload that the properties
  below speak about.
\<close>

datatype server_event =
    Identified "store_info option"
  | License_error nat string
  | License_expired nat "store_info option"
  | Identification_error string
  | Sync_response "string option" bool
  | Request_table_schema string
  | Batch_sync_response "(string option \<times> bool) list"
  | Batch_sync_error string
  | Pong
  | Ddl_sync_success "string option" bool
  | Ddl_sync_error "string option" string
  | Table_schema_error string
  | Full_data_sync_error string
  | Verify_and_sync_error string
  | Table_creation_error string
  | Initial_sync_error string
  | Force_sync_error string
  | Force_sync_response bool
  | Clear_database_response bool string
  | Csv_bulk_upload_response string bool
  | Csv_bulk_import_progress string
  | Csv_file_import_complete string bool

text \<open>
  What a handler does, in program order: it emits an event to the peer, closes the
  connection at once (\<open>socket.disconnect(true)\<close>), hands an action to \<open>setTimeout\<close>
  with its delay in milliseconds, opens a file for writing (creating or emptying it),
  writes bytes to it, closes it, or starts the import of an uploaded file
  (\<open>processSingleCSVFile\<close> with the store, the application, the table and the file name).
\<close>

datatype action =
    Emit server_event
  | Disconnect
  | SetTimeout nat action
  | OpenFile string
  | WriteFile string string
  | CloseFile string
  | ProcessSingleCSVFile "string option" "string option" string string

subsection \<open>The \<open>identify\<close> handler\<close>

record identify_data =
  id_storeId :: "string option"
  id_appId :: "string option"
  id_serviceType :: "string option"

text \<open>
  The event's argument is \<open>None\<close> when the peer sent none: destructuring it throws,
  and the handler's \<open>catch\<close> answers \<open>identification_error\<close> and disconnects.
\<close>

definition identify ::
  "tenant_db \<Rightarrow> int \<Rightarrow> license_service \<Rightarrow> session \<Rightarrow> identify_data option
     \<Rightarrow> (license_service \<times> session) \<times> action list"
where
  "identify db now svc sock data =
     (case data of
        None \<Rightarrow>
          ((svc, sock),
           [Emit (Identification_error ''Identification failed''), Disconnect])
      | Some d \<Rightarrow>
          (let bind = (\<lambda>svc' info.
                 (let sock' = sock\<lparr>socket_licenseInfo := info,
                                   socket_storeId := id_storeId d,
                                   socket_appId := id_appId d,
                                   socket_serviceType := id_serviceType d,
                                   fullSyncStatus := Some False\<rparr>
                  in ((svc', sock'), [Emit (Identified (socket_licenseInfo sock'))])))
           in
           if id_serviceType d = Some ''advanced_online_report'' then
             (if \<not> present (id_storeId d) \<or> \<not> present (id_appId d) then
                ((svc, sock),
                 [Emit (License_error 400 ''Missing storeId or appId for Advanced Online Report''),
                  Disconnect])
              else
                (let (svc', licenseValidation) =
                       validateAdvancedReportLicense db now svc
                         (the (id_storeId d)) (the (id_appId d))
                 in
                 if \<not> isValid licenseValidation \<or> isExpired licenseValidation then
                   ((svc', sock),
                    [Emit (License_expired 410 (storeInfo licenseValidation)),
                     SetTimeout 1000 Disconnect])
                 else bind svc' (storeInfo licenseValidation)))
           else bind svc (socket_licenseInfo sock)))"

text \<open>
  Whether a list of actions closes the connection at once, and whether it closes it only
  through a timer (a grace period in which the peer can read what was emitted).
\<close>

fun closes_now :: "action list \<Rightarrow> bool" where
  "closes_now [] = False"
| "closes_now (Disconnect # _) = True"
| "closes_now (_ # as) = closes_now as"

fun closes_later :: "action list \<Rightarrow> bool" where
  "closes_later [] = False"
| "closes_later (SetTimeout ms Disconnect # _) = (0 < ms)"
| "closes_later (_ # as) = closes_later as"

definition closes_after_grace :: "action list \<Rightarrow> bool" where
  "closes_after_grace as = (closes_later as \<and> \<not> closes_now as)"

section \<open>Strings\<close>

text \<open>
  The string operations of the source that the model needs, on ASCII:
  \<open>startsWith\<close>, \<open>includes\<close> (here \<open>js_includes\<close>), \<open>trim\<close>, \<open>toUpperCase\<close>, \<open>join\<close>, and the search for
  the first occurrence of a literal.
\<close>

fun startsWith :: "string \<Rightarrow> string \<Rightarrow> bool" where
  "startsWith [] s = True"
| "startsWith (p # ps) [] = False"
| "startsWith (p # ps) (c # cs) = (p = c \<and> startsWith ps cs)"

text \<open>
  \<open>split_on pat s\<close>: the text before and the text after the first occurrence of
  \<open>pat\<close> in \<open>s\<close>, when there is one.
\<close>

fun split_on :: "string \<Rightarrow> string \<Rightarrow> (string \<times> string) option" where
  "split_on pat [] = (if pat = [] then Some ([], []) else None)"
| "split_on pat (c # cs) =
     (if startsWith pat (c # cs) then Some ([], drop (length pat) (c # cs))
      else map_option (\<lambda>(b, a). (c # b, a)) (split_on pat cs))"

definition js_includes :: "string \<Rightarrow> string \<Rightarrow> bool" where
  "js_includes s pat = (split_on pat s \<noteq> None)"

text \<open>
  The blanks of \<open>trim\<close> and of \<open>\s\<close> among the ASCII characters. Outside ASCII both know
  further blanks (the no-break space among them), so what is said of \<open>trim\<close> below is
  said of ASCII text.
\<close>

definition is_space :: "char \<Rightarrow> bool" where
  "is_space c = (c \<in> {CHR '' '', CHR 0x09, CHR 0x0A, CHR 0x0B, CHR 0x0C, CHR 0x0D})"

definition trim :: "string \<Rightarrow> string" where
  "trim s = rev (dropWhile is_space (rev (dropWhile is_space s)))"

definition is_lower :: "char \<Rightarrow> bool" where
  "is_lower c = (97 \<le> (of_char c :: nat) \<and> (of_char c :: nat) \<le> 122)"

definition is_upper :: "char \<Rightarrow> bool" where
  "is_upper c = (65 \<le> (of_char c :: nat) \<and> (of_char c :: nat) \<le> 90)"

definition is_digit :: "char \<Rightarrow> bool" where
  "is_digit c = (48 \<le> (of_char c :: nat) \<and> (of_char c :: nat) \<le> 57)"

definition upper_char :: "char \<Rightarrow> char" where
  "upper_char c =
     (case map_of (zip ''abcdefghijklmnopqrstuvwxyz'' ''ABCDEFGHIJKLMNOPQRSTUVWXYZ'') c of
        Some u \<Rightarrow> u
      | None \<Rightarrow> c)"

definition toUpperCase :: "string \<Rightarrow> string" where
  "toUpperCase s = map upper_char s"

fun join :: "string \<Rightarrow> string list \<Rightarrow> string" where
  "join sep [] = []"
| "join sep [x] = x"
| "join sep (x # y # ys) = x @ sep @ join sep (y # ys)"

section \<open>Row payloads\<close>

text \<open>
  A decoded payload is a JavaScript object with scalar values: the list of its own
  properties in the order \<open>Object.keys\<close> gives them, each key once. That order has the
  keys that are array indices first, by ascending number, and then every other key in
  the order of its first assignment.
\<close>

type_synonym obj = "(string \<times> jsval) list"

definition keys :: "obj \<Rightarrow> string list" where
  "keys p = map fst p"

definition vals :: "obj \<Rightarrow> jsval list" where
  "vals p = map snd p"

text \<open>\<open>k in p\<close> and \<open>p[k]\<close> (which is \<open>undefined\<close> for a key that is not there).\<close>

definition has_key :: "string \<Rightarrow> obj \<Rightarrow> bool" where
  "has_key k p = (map_of p k \<noteq> None)"

definition get :: "obj \<Rightarrow> string \<Rightarrow> jsval" where
  "get p k = (case map_of p k of None \<Rightarrow> JUndefined | Some v \<Rightarrow> v)"

text \<open>
  An array index is the decimal text of a number below \<open>2^32 - 1\<close>, written without a
  leading zero.
\<close>

definition index_value :: "string \<Rightarrow> int" where
  "index_value k = foldl (\<lambda>acc c. 10 * acc + (int (of_char c) - 48)) 0 k"

definition is_index :: "string \<Rightarrow> bool" where
  "is_index k = (k \<noteq> [] \<and> list_all is_digit k \<and> (k = ''0'' \<or> hd k \<noteq> CHR ''0'')
                 \<and> index_value k < 4294967295)"

fun insert_index :: "string \<Rightarrow> jsval \<Rightarrow> obj \<Rightarrow> obj" where
  "insert_index k v [] = [(k, v)]"
| "insert_index k v ((k', v') # p) =
     (if is_index k' \<and> index_value k' < index_value k then (k', v') # insert_index k v p
      else (k, v) # (k', v') # p)"

text \<open>
  \<open>p[k] = v\<close> on an object made by \<open>{}\<close>, for a scalar \<open>v\<close>. The key \<open>__proto__\<close> is
  the accessor that \<open>Object.prototype\<close> provides, whose setter ignores a value that is not
  an object: no property is made. A key the object has keeps its place and takes the
  value. A new key that is an array index goes among the indices by its number, and any
  other new key goes last.
\<close>

definition assign :: "string \<Rightarrow> jsval \<Rightarrow> obj \<Rightarrow> obj" where
  "assign k v p =
     (if k = ''__proto__'' then p
      else if is_index k \<and> \<not> has_key k p then insert_index k v p
      else AList.update k v p)"

text \<open>A key for which assignment is the plain case: it is kept, or goes last.\<close>

definition plain_key :: "string \<Rightarrow> bool" where
  "plain_key k = (k \<noteq> ''__proto__'' \<and> \<not> is_index k)"

section \<open>The XML decoder\<close>

text \<open>
  One attempt of the regular expression \<^verbatim>\<open><([^>]+)>([^<]*)<\/\1>\<close> at the head of a
  string: the tag, the text, and what follows the match. Both classes exclude the
  character that must come next, so the greedy runs are the only way to match.
\<close>

definition match_tag :: "string \<Rightarrow> (string \<times> string \<times> string) option" where
  "match_tag s =
     (case s of
        [] \<Rightarrow> None
      | c # r \<Rightarrow>
          if c \<noteq> CHR ''<'' then None
          else
            (let tagName = takeWhile (\<lambda>x. x \<noteq> CHR ''>'') r;
                 r1 = dropWhile (\<lambda>x. x \<noteq> CHR ''>'') r
             in if tagName = [] \<or> r1 = [] then None
                else
                  (let r2 = tl r1;
                       tagValue = takeWhile (\<lambda>x. x \<noteq> CHR ''<'') r2;
                       r3 = dropWhile (\<lambda>x. x \<noteq> CHR ''<'') r2;
                       closing = ''</'' @ tagName @ ''>''
                   in if startsWith closing r3
                      then Some (tagName, tagValue, drop (length closing) r3)
                      else None)))"

text \<open>
  The \<open>exec\<close> loop of a global regular expression: the leftmost match from the current
  position, then on from the end of that match.
\<close>

function scan_tags :: "string \<Rightarrow> (string \<times> string) list" where
  "scan_tags [] = []"
| "scan_tags (c # r) =
     (case match_tag (c # r) of
        Some (tagName, tagValue, rest) \<Rightarrow>
          (tagName, tagValue) # scan_tags rest
      | None \<Rightarrow> scan_tags r)"
  by pat_completeness auto
termination
proof (relation "measure length")
  show "wf (measure length)" by simp
next
  fix c r x2 tagName y tagValue rest
  assume m: "match_tag (c # r) = Some x2" "(tagName, y) = x2" "(tagValue, rest) = y"
  then have "match_tag (c # r) = Some (tagName, tagValue, rest)" by simp
  then have "length rest < length (c # r)"
    by (auto simp: match_tag_def Let_def split: if_splits
        intro: le_less_trans [OF length_dropWhile_le] less_le_trans
        dest!: arg_cong [where f = length])
      (metis (no_types, lifting) diff_le_self le_trans length_dropWhile_le length_tl
        less_Suc_eq_le)
  then show "(rest, c # r) \<in> measure length"
    by simp
next
  fix c r
  show "(r, c # r) \<in> measure length" by simp
qed

text \<open>
  The body of each loop: the value is trimmed, and a pair whose trimmed value is empty
  assigns nothing (\<open>if (tagValue && tagValue !== '')\<close>).
\<close>

fun assign_tags :: "string \<Rightarrow> (string \<times> string) list \<Rightarrow> obj \<Rightarrow> obj" where
  "assign_tags pre [] result = result"
| "assign_tags pre ((tagName, v) # ms) result =
     (let tagValue = trim v
      in assign_tags pre ms
           (if tagValue \<noteq> [] then assign (pre @ tagName) (JStr tagValue) result else result))"

text \<open>
  \<^verbatim>\<open>xmlString.match(/<new>(.*?)<\/new>/s)\<close>: the text between the first opening tag and
  the first closing tag after it.
\<close>

definition between :: "string \<Rightarrow> string \<Rightarrow> string \<Rightarrow> string option" where
  "between opening closing s =
     (case split_on opening s of
        None \<Rightarrow> None
      | Some (_, after) \<Rightarrow> map_option fst (split_on closing after))"

definition parseXMLToObject :: "string \<Rightarrow> obj" where
  "parseXMLToObject xmlString =
     (if js_includes xmlString ''<new>'' \<and> js_includes xmlString ''<old>'' then
        (let result1 =
               (case between ''<new>'' ''</new>'' xmlString of
                  Some newData \<Rightarrow> assign_tags [] (scan_tags newData) []
                | None \<Rightarrow> []);
             result2 =
               (case between ''<old>'' ''</old>'' xmlString of
                  Some oldData \<Rightarrow> assign_tags ''old_'' (scan_tags oldData) result1
                | None \<Rightarrow> result1)
         in result2)
      else assign_tags [] (scan_tags xmlString) [])"

section \<open>The row-operation dispatcher\<close>


text \<open>A parameterised statement: the SQL text and the values bound to its placeholders.\<close>

record statement =
  sql :: string
  params :: "jsval list"


text \<open>A column name in backticks, as every clause of the dispatcher writes it.\<close>

definition quoted :: "string \<Rightarrow> string" where
  "quoted key = ''`'' @ key @ ''`''"

subsection \<open>INSERT\<close>

definition build_insert :: "string \<Rightarrow> obj \<Rightarrow> statement" where
  "build_insert tableName parsedData =
     (let insertColumns = join '', '' (map quoted (keys parsedData));
          insertPlaceholders = join '', '' (map (\<lambda>_. ''?'') (keys parsedData));
          insertValues = vals parsedData;
          updateColumns =
            join '', '' (map (\<lambda>key. quoted key @ '' = VALUES('' @ quoted key @ '')'')
                           (keys parsedData))
      in \<lparr>sql = ''INSERT INTO '' @ tableName @ '' ('' @ insertColumns @ '') VALUES (''
                 @ insertPlaceholders @ '') ON DUPLICATE KEY UPDATE '' @ updateColumns,
          params = insertValues\<rparr>)"

subsection \<open>UPDATE\<close>

text \<open>
  The guard of each primary-key column, \<^verbatim>\<open>!('X' in parsedData) && !('old_X' in parsedData)\<close>,
  and the value it then binds, \<^verbatim>\<open>parsedData.old_X || parsedData.X\<close>.
\<close>

definition missing_both :: "obj \<Rightarrow> string \<Rightarrow> bool" where
  "missing_both p col = (\<not> has_key col p \<and> \<not> has_key (''old_'' @ col) p)"

definition old_or_new :: "obj \<Rightarrow> string \<Rightarrow> jsval" where
  "old_or_new p col = js_or (get p (''old_'' @ col)) (get p col)"

text \<open>
  The \<open>if\<close> chain over \<open>tableName\<close> and \<open>businessType\<close> that fills \<open>whereFields\<close>
  and \<open>whereValues\<close>; a branch that assigns nothing leaves both empty.
\<close>

definition update_where ::
  "string \<Rightarrow> string option \<Rightarrow> obj \<Rightarrow> string + (string list \<times> jsval list)"
where
  "update_where tableName businessType p =
     (if tableName = ''SalesDetail'' then
        (if businessType = Some ''hospitality'' then
           (if missing_both p ''OrderNo'' then
              Inl ''No OrderNo or old_OrderNo found for UPDATE operation on SalesDetail (Hospitality)''
            else if missing_both p ''ItemCode'' then
              Inl ''No ItemCode or old_ItemCode found for UPDATE operation on SalesDetail (Hospitality)''
            else Inr ([''OrderNo'', ''ItemCode''],
                      [old_or_new p ''OrderNo'', old_or_new p ''ItemCode'']))
         else if businessType = Some ''retail'' then
           (if missing_both p ''InvoiceNo'' then
              Inl ''No InvoiceNo or old_InvoiceNo found for UPDATE operation on SalesDetail (Retail)''
            else if missing_both p ''StockId'' then
              Inl ''No StockId or old_StockId found for UPDATE operation on SalesDetail (Retail)''
            else Inr ([''InvoiceNo'', ''StockId''],
                      [old_or_new p ''InvoiceNo'', old_or_new p ''StockId'']))
         else Inr ([], []))
      else if tableName = ''Sales'' then
        (if businessType = Some ''hospitality'' then
           (if missing_both p ''OrderNo'' then
              Inl ''No OrderNo or old_OrderNo found for UPDATE operation on Sales (Hospitality)''
            else Inr ([''OrderNo''], [old_or_new p ''OrderNo'']))
         else if businessType = Some ''retail'' then
           (if missing_both p ''InvoiceNo'' then
              Inl ''No InvoiceNo or old_InvoiceNo found for UPDATE operation on Sales (Retail)''
            else Inr ([''InvoiceNo''], [old_or_new p ''InvoiceNo'']))
         else
           (if \<not> missing_both p ''InvoiceNo'' then
              Inr ([''InvoiceNo''], [old_or_new p ''InvoiceNo''])
            else if \<not> missing_both p ''OrderNo'' then
              Inr ([''OrderNo''], [old_or_new p ''OrderNo''])
            else Inl ''No InvoiceNo or OrderNo found for UPDATE operation on Sales''))
      else if tableName = ''StockItems'' then
        (if businessType = Some ''retail'' then
           (if missing_both p ''StockId'' then
              Inl ''No StockId or old_StockId found for UPDATE operation on StockItems (Retail)''
            else Inr ([''StockId''], [old_or_new p ''StockId'']))
         else Inr ([], []))
      else if tableName = ''MenuItem'' then
        (if businessType = Some ''hospitality'' then
           (if missing_both p ''ItemCode'' then
              Inl ''No ItemCode or old_ItemCode found for UPDATE operation on MenuItem (Hospitality)''
            else Inr ([''ItemCode''], [old_or_new p ''ItemCode'']))
         else Inr ([], []))
      else if tableName = ''SubMenuLinkDetail'' then
        (if businessType = Some ''hospitality'' then
           (if missing_both p ''ItemCode'' then
              Inl ''No ItemCode or old_ItemCode found for UPDATE operation on SubMenuLinkDetail (Hospitality)''
            else Inr ([''ItemCode''], [old_or_new p ''ItemCode'']))
         else Inr ([], []))
      else if tableName = ''PaymentReceived'' then
        (if businessType = Some ''hospitality'' then
           (if missing_both p ''OrderNo'' then
              Inl ''No OrderNo or old_OrderNo found for UPDATE operation on PaymentReceived (Hospitality)''
            else if missing_both p ''Id'' then
              Inl ''No Id or old_Id found for UPDATE operation on PaymentReceived (Hospitality)''
            else Inr ([''OrderNo'', ''Id''], [old_or_new p ''OrderNo'', old_or_new p ''Id'']))
         else if businessType = Some ''retail'' then
           (if missing_both p ''InvoiceNo'' then
              Inl ''No InvoiceNo or old_InvoiceNo found for UPDATE operation on PaymentReceived (Retail)''
            else if missing_both p ''Id'' then
              Inl ''No Id or old_Id found for UPDATE operation on PaymentReceived (Retail)''
            else Inr ([''InvoiceNo'', ''Id''], [old_or_new p ''InvoiceNo'', old_or_new p ''Id'']))
         else Inr ([], []))
      else if tableName = ''Payment'' then
        (if missing_both p ''Payment'' then
           Inl ''No Payment or old_Payment found for UPDATE operation on Payment''
         else Inr ([''Payment''], [old_or_new p ''Payment'']))
      else
        (if truthy (js_or (get p ''id'') (get p ''old_id'')) then
           Inr ([''id''], [old_or_new p ''id''])
         else Inl (''No primary key found for UPDATE operation on '' @ tableName)))"

text \<open>How a template literal prints \<open>businessType\<close>.\<close>

definition show_businessType :: "string option \<Rightarrow> string" where
  "show_businessType bt = (case bt of None \<Rightarrow> ''undefined'' | Some s \<Rightarrow> s)"

definition where_clause :: "string list \<Rightarrow> string" where
  "where_clause whereFields =
     join '' AND '' (map (\<lambda>field. quoted field @ '' = ?'') whereFields)"

definition build_update :: "string \<Rightarrow> string option \<Rightarrow> obj \<Rightarrow> string + statement" where
  "build_update tableName businessType parsedData =
     (case update_where tableName businessType parsedData of
        Inl e \<Rightarrow> Inl e
      | Inr (whereFields, whereValues) \<Rightarrow>
          (let setKeys = filter (\<lambda>key. \<not> startsWith ''old_'' key) (keys parsedData);
               setClause = join '', '' (map (\<lambda>key. quoted key @ '' = ?'') setKeys)
           in if setClause = [] then Inl ''No fields to update''
              else
                (let updateValues = map (get parsedData) setKeys
                 in if whereFields = [] then
                      Inl (''No WHERE condition defined for UPDATE operation on '' @ tableName
                           @ '' with businessType='' @ show_businessType businessType)
                    else
                      Inr \<lparr>sql = ''UPDATE '' @ tableName @ '' SET '' @ setClause
                                  @ '' WHERE '' @ where_clause whereFields,
                           params = updateValues @ whereValues\<rparr>)))"

subsection \<open>DELETE\<close>

definition delete_where ::
  "string \<Rightarrow> string option \<Rightarrow> obj \<Rightarrow> string + (string list \<times> jsval list)"
where
  "delete_where tableName businessType p =
     (if tableName = ''SalesDetail'' then
        (if businessType = Some ''hospitality'' then
           (if \<not> has_key ''OrderNo'' p then
              Inl ''No OrderNo found for DELETE operation on SalesDetail (Hospitality)''
            else if \<not> has_key ''ItemCode'' p then
              Inl ''No ItemCode found for DELETE operation on SalesDetail (Hospitality)''
            else Inr ([''OrderNo'', ''ItemCode''], [get p ''OrderNo'', get p ''ItemCode'']))
         else if businessType = Some ''retail'' then
           (if \<not> has_key ''InvoiceNo'' p then
              Inl ''No InvoiceNo found for DELETE operation on SalesDetail (Retail)''
            else if \<not> has_key ''StockId'' p then
              Inl ''No StockId found for DELETE operation on SalesDetail (Retail)''
            else Inr ([''InvoiceNo'', ''StockId''], [get p ''InvoiceNo'', get p ''StockId'']))
         else Inr ([], []))
      else if tableName = ''Sales'' then
        (if businessType = Some ''hospitality'' then
           (if \<not> has_key ''OrderNo'' p then
              Inl ''No OrderNo found for DELETE operation on Sales (Hospitality)''
            else Inr ([''OrderNo''], [get p ''OrderNo'']))
         else if businessType = Some ''retail'' then
           (if \<not> has_key ''InvoiceNo'' p then
              Inl ''No InvoiceNo found for DELETE operation on Sales (Retail)''
            else Inr ([''InvoiceNo''], [get p ''InvoiceNo'']))
         else Inr ([], []))
      else if tableName = ''MenuItem'' then
        (if \<not> has_key ''ItemCode'' p then
           Inl ''No ItemCode found for DELETE operation on MenuItem''
         else Inr ([''ItemCode''], [get p ''ItemCode'']))
      else if tableName = ''StockItems'' then
        (if \<not> has_key ''StockId'' p then
           Inl ''No StockId found for DELETE operation on StockItems''
         else Inr ([''StockId''], [get p ''StockId'']))
      else if tableName = ''PaymentReceived'' then
        (if businessType = Some ''hospitality'' then
           (if \<not> has_key ''OrderNo'' p then
              Inl ''No OrderNo found for DELETE operation on PaymentReceived (Hospitality)''
            else if \<not> has_key ''Id'' p then
              Inl ''No Id found for DELETE operation on PaymentReceived (Hospitality)''
            else Inr ([''OrderNo'', ''Id''], [get p ''OrderNo'', get p ''Id'']))
         else if businessType = Some ''retail'' then
           (if \<not> has_key ''InvoiceNo'' p then
              Inl ''No InvoiceNo found for DELETE operation on PaymentReceived (Retail)''
            else if \<not> has_key ''Id'' p then
              Inl ''No Id found for DELETE operation on PaymentReceived (Retail)''
            else Inr ([''InvoiceNo'', ''Id''], [get p ''InvoiceNo'', get p ''Id'']))
         else Inr ([], []))
      else if tableName = ''Payment'' then
        (if \<not> has_key ''Payment'' p then
           Inl ''No Payment found for DELETE operation on Payment''
         else Inr ([''Payment''], [get p ''Payment'']))
      else
        (if has_key ''id'' p then Inr ([''id''], [get p ''id''])
         else Inl (''No primary key found for DELETE operation on '' @ tableName)))"

definition build_delete :: "string \<Rightarrow> string option \<Rightarrow> obj \<Rightarrow> string + statement" where
  "build_delete tableName businessType parsedData =
     (case delete_where tableName businessType parsedData of
        Inl e \<Rightarrow> Inl e
      | Inr (deleteFields, deleteValues) \<Rightarrow>
          if deleteFields = [] then
            Inl (''No WHERE condition defined for DELETE operation on '' @ tableName
                 @ '' with businessType='' @ show_businessType businessType)
          else
            Inr \<lparr>sql = ''DELETE FROM '' @ tableName @ '' WHERE '' @ where_clause deleteFields,
                 params = deleteValues\<rparr>)"

subsection \<open>The dispatcher\<close>

text \<open>
  The statement \<open>executeAdvancedSyncOperation\<close> builds for a decoded payload, or the
  message of the \<open>Error\<close> it throws before anything reaches the target store.
\<close>

definition build_statement ::
  "string \<Rightarrow> string \<Rightarrow> obj \<Rightarrow> string option \<Rightarrow> string + statement"
where
  "build_statement tableName operation parsedData businessType =
     (let op = toUpperCase operation
      in if op = ''INSERT'' then Inr (build_insert tableName parsedData)
         else if op = ''UPDATE'' then build_update tableName businessType parsedData
         else if op = ''DELETE'' then build_delete tableName businessType parsedData
         else Inl (''Unsupported operation: '' @ operation))"


subsection \<open>The primary-key policy the specification tabulates\<close>

text \<open>
  The specification's table, row by row: the key columns of a table under a business
  type, \<open>None\<close> where the table has a dash (or the business type is neither \<open>retail\<close>
  nor \<open>hospitality\<close>), and the \<open>id\<close> fallback for a table it does not name. It is the
  yardstick the dispatcher is compared with; the dispatcher does not call it.
\<close>

definition pk_policy :: "string \<Rightarrow> string option \<Rightarrow> string list option" where
  "pk_policy tableName businessType =
     (if businessType = Some ''retail'' then
        (if tableName = ''Sales'' then Some [''InvoiceNo'']
         else if tableName = ''SalesDetail'' then Some [''InvoiceNo'', ''StockId'']
         else if tableName = ''StockItems'' then Some [''StockId'']
         else if tableName = ''MenuItem'' then None
         else if tableName = ''SubMenuLinkDetail'' then None
         else if tableName = ''PaymentReceived'' then Some [''InvoiceNo'', ''Id'']
         else if tableName = ''Payment'' then Some [''Payment'']
         else Some [''id''])
      else if businessType = Some ''hospitality'' then
        (if tableName = ''Sales'' then Some [''OrderNo'']
         else if tableName = ''SalesDetail'' then Some [''OrderNo'', ''ItemCode'']
         else if tableName = ''StockItems'' then None
         else if tableName = ''MenuItem'' then Some [''ItemCode'']
         else if tableName = ''SubMenuLinkDetail'' then Some [''ItemCode'']
         else if tableName = ''PaymentReceived'' then Some [''OrderNo'', ''Id'']
         else if tableName = ''Payment'' then Some [''Payment'']
         else Some [''id''])
      else None)"

text \<open>
  The value the specification has an UPDATE bind for a key column: the pre-image
  \<open>old_<col>\<close> when the payload has that key, the column itself otherwise.
\<close>

definition pre_image :: "obj \<Rightarrow> string \<Rightarrow> jsval" where
  "pre_image p col = (if has_key (''old_'' @ col) p then get p (''old_'' @ col) else get p col)"

text \<open>
  The seven tables the dispatcher names; every other table takes its last branch.
\<close>

definition named_table :: "string \<Rightarrow> bool" where
  "named_table t = (t = ''Sales'' \<or> t = ''SalesDetail'' \<or> t = ''StockItems'' \<or> t = ''MenuItem''
      \<or> t = ''SubMenuLinkDetail'' \<or> t = ''PaymentReceived'' \<or> t = ''Payment'')"

text \<open>
  A payload in which no key column has a falsy pre-image: where it has \<open>old_<col>\<close>,
  the value under that key is truthy (non-empty text, a number other than zero).
\<close>

definition pre_image_truthy :: "obj \<Rightarrow> string list \<Rightarrow> bool" where
  "pre_image_truthy p cols =
     list_all (\<lambda>c. has_key (''old_'' @ c) p \<longrightarrow> truthy (get p (''old_'' @ c))) cols"

section \<open>The legacy row path of the sync service\<close>

text \<open>
  \<open>getWhereFields\<close>: the sync service's own table of WHERE columns, keyed by the table
  name alone.
\<close>

definition getWhereFields :: "string \<Rightarrow> string list" where
  "getWhereFields tableName =
     (if tableName = ''SalesDetail'' then [''InvoiceNo'', ''StockId'']
      else if tableName = ''StockItems'' then [''StockId'']
      else if tableName = ''Sales'' then [''InvoiceNo'', ''TransactionDate'']
      else if tableName = ''MenuItem'' then [''ItemCode'']
      else if tableName = ''SubMenuLinkDetail'' then [''ItemCode'', ''SubItemCode'']
      else [''ID''])"

text \<open>
  The legacy \<open>Data\<close> object: its own scalar properties, and the optional \<open>new\<close> and
  \<open>old\<close> parts, each either a row or a wrapper holding the row under \<open>inserted\<close>
  (for \<open>new\<close>) or \<open>deleted\<close> (for \<open>old\<close>).
\<close>

datatype legacy_part = Direct obj | Wrapped obj

record legacy_data =
  own :: obj
  new_part :: "legacy_part option"
  old_part :: "legacy_part option"

text \<open>\<open>data.old.deleted || data.old\<close>, and the same for \<open>new\<close>: the row either way.\<close>

fun part_row :: "legacy_part \<Rightarrow> obj" where
  "part_row (Direct r) = r"
| "part_row (Wrapped r) = r"

definition source_data :: "legacy_data \<Rightarrow> bool \<Rightarrow> obj" where
  "source_data data isOldData =
     (if isOldData \<and> old_part data \<noteq> None then part_row (the (old_part data))
      else if \<not> isOldData \<and> new_part data \<noteq> None then part_row (the (new_part data))
      else if new_part data \<noteq> None \<and> old_part data = None then part_row (the (new_part data))
      else own data)"

definition defined :: "jsval \<Rightarrow> bool" where
  "defined v = (v \<noteq> JUndefined \<and> v \<noteq> JNull)"

definition buildWhereCondition :: "string \<Rightarrow> legacy_data \<Rightarrow> bool \<Rightarrow> obj" where
  "buildWhereCondition tableName data isOldData =
     (let whereFields = getWhereFields tableName;
          sourceData = source_data data isOldData;
          whereCondition =
            fold (\<lambda>field acc. if defined (get sourceData field)
                                then assign field (get sourceData field) acc else acc)
                 whereFields []
      in if keys whereCondition = [] then
           (if get sourceData ''ID'' \<noteq> JUndefined
            then assign ''ID'' (get sourceData ''ID'') whereCondition
            else whereCondition)
         else whereCondition)"

definition nl :: string where
  "nl = [CHR 0x0A]"

definition indent :: "nat \<Rightarrow> string" where
  "indent n = replicate n CHR '' ''"

text \<open>
  The statement \<open>handleDelete\<close> builds, after the check that the table exists
  (\<open>tableExists\<close> is what \<open>dbManager.tableExists\<close> answered).
\<close>

definition handleDelete_statement :: "bool \<Rightarrow> string \<Rightarrow> legacy_data \<Rightarrow> string + statement" where
  "handleDelete_statement tableExists TableName Data =
     (if \<not> tableExists then Inl (''TABLE_NOT_EXISTS:'' @ TableName)
      else
        (let whereCondition = buildWhereCondition TableName Data False
         in if keys whereCondition = [] then
              Inl (''WHERE condition is required for DELETE operation on '' @ TableName
                   @ ''. Required fields: '' @ join '', '' (getWhereFields TableName))
            else
              Inr \<lparr>sql = nl @ indent 16 @ ''DELETE FROM '' @ quoted TableName @ nl
                         @ indent 16 @ ''WHERE '' @ where_clause (keys whereCondition) @ nl
                         @ indent 12,
                   params = vals whereCondition\<rparr>))"





section \<open>The wire grammar of the XML envelope\<close>

text \<open>
  The specification's minimal grammar, as a printer: a document is a sequence of
  \<^verbatim>\<open><tag>value</tag>\<close> pairs, or such a sequence under \<^verbatim>\<open><new>\<close> followed by one
  under \<^verbatim>\<open><old>\<close>. A tag is a non-empty name without \<open><\<close>, \<open>>\<close> and \<open>/\<close> that is
  not one of the two envelope names and not \<open>__proto__\<close>; a value is ASCII text without
  \<open><\<close>.
\<close>

definition render_pair :: "string \<times> string \<Rightarrow> string" where
  "render_pair p = ''<'' @ fst p @ ''>'' @ snd p @ ''</'' @ fst p @ ''>''"

definition render_pairs :: "(string \<times> string) list \<Rightarrow> string" where
  "render_pairs ps = concat (map render_pair ps)"

definition ascii :: "string \<Rightarrow> bool" where
  "ascii s = list_all (\<lambda>c. (of_char c :: nat) < 128) s"

definition wf_tag :: "string \<Rightarrow> bool" where
  "wf_tag t = (t \<noteq> [] \<and> CHR ''<'' \<notin> set t \<and> CHR ''>'' \<notin> set t \<and> CHR ''/'' \<notin> set t
               \<and> t \<noteq> ''new'' \<and> t \<noteq> ''old'' \<and> t \<noteq> ''__proto__'')"

definition wf_pair :: "string \<times> string \<Rightarrow> bool" where
  "wf_pair p = (wf_tag (fst p) \<and> CHR ''<'' \<notin> set (snd p) \<and> ascii (snd p))"

text \<open>
  The entries a sequence of pairs stands for: the pairs whose trimmed value is not empty,
  each as \<open>prefix + tag \<mapsto> trimmed value\<close>, in document order.
\<close>

definition entries :: "string \<Rightarrow> (string \<times> string) list \<Rightarrow> obj" where
  "entries pre ps =
     map (\<lambda>(t, v). (pre @ t, JStr (trim v))) (filter (\<lambda>(t, v). trim v \<noteq> []) ps)"

text \<open>The four literals the decoder searches for, without their opening \<open><\<close>.\<close>

definition marker :: "string \<Rightarrow> bool" where
  "marker q = (q = ''new>'' \<or> q = ''/new>'' \<or> q = ''old>'' \<or> q = ''/old>'')"

section \<open>The DDL translator\<close>

text \<open>
  The translator is a chain of \<open>String.prototype.replace\<close> calls with global regular
  expressions. Each expression is modelled by a matcher: a function that, at the head of
  a string, gives the replacement text and what follows the match. The pieces the
  expressions are made of are a literal compared without regard to case (flag \<open>i\<close>), a
  literal compared exactly, and a greedy non-empty run of a character class; in every
  expression below the run is followed by a character outside its class or ends the
  expression, so the greedy run is the only way to match.
\<close>

fun lit_ci :: "string \<Rightarrow> string \<Rightarrow> string option" where
  "lit_ci [] s = Some s"
| "lit_ci (p # ps) [] = None"
| "lit_ci (p # ps) (c # cs) = (if upper_char p = upper_char c then lit_ci ps cs else None)"

definition lit :: "string \<Rightarrow> string \<Rightarrow> string option" where
  "lit pat s = (if startsWith pat s then Some (drop (length pat) s) else None)"

definition run1 :: "(char \<Rightarrow> bool) \<Rightarrow> string \<Rightarrow> (string \<times> string) option" where
  "run1 P s = (if takeWhile P s = [] then None else Some (takeWhile P s, dropWhile P s))"

text \<open>\<open>[A-Z]\<close> under the flag \<open>i\<close>: a letter of either case.\<close>

definition is_letter :: "char \<Rightarrow> bool" where
  "is_letter c = (is_upper c \<or> is_lower c)"

text \<open>
  \<open>s.replace(re, ...)\<close> for a global expression: the matches are taken from left to
  right, each search starting where the match before it ended. No expression of the
  translator matches the empty string; a matcher that consumed nothing would be passed
  over.
\<close>

function replace_all :: "(string \<Rightarrow> (string \<times> string) option) \<Rightarrow> string \<Rightarrow> string" where
  "replace_all m [] = []"
| "replace_all m (c # r) =
     (case m (c # r) of
        None \<Rightarrow> c # replace_all m r
      | Some (replacement, rest) \<Rightarrow>
          if length rest \<le> length r then replacement @ replace_all m rest
          else c # replace_all m r)"
  by pat_completeness auto
termination
  by (relation "measure (\<lambda>(m, s). length s)") auto

text \<open>A literal, without regard to case, replaced by a fixed text.\<close>

definition m_literal :: "string \<Rightarrow> string \<Rightarrow> string \<Rightarrow> (string \<times> string) option" where
  "m_literal pat replacement s = map_option (\<lambda>rest. (replacement, rest)) (lit_ci pat s)"

text \<open>\<^verbatim>\<open>/\[NVARCHAR\]\((\d+)\)/gi\<close> to \<^verbatim>\<open>VARCHAR($1)\<close>.\<close>

definition m_bracket_nvarchar :: "string \<Rightarrow> (string \<times> string) option" where
  "m_bracket_nvarchar s =
     do { r1 \<leftarrow> lit_ci ''[NVARCHAR]('' s;
          (n, r2) \<leftarrow> run1 is_digit r1;
          r3 \<leftarrow> lit '')'' r2;
          Some (''VARCHAR('' @ n @ '')'', r3) }"

text \<open>\<^verbatim>\<open>/NVARCHAR\((\d+)\)/gi\<close> to \<^verbatim>\<open>VARCHAR($1)\<close>.\<close>

definition m_nvarchar :: "string \<Rightarrow> (string \<times> string) option" where
  "m_nvarchar s =
     do { r1 \<leftarrow> lit_ci ''NVARCHAR('' s;
          (n, r2) \<leftarrow> run1 is_digit r1;
          r3 \<leftarrow> lit '')'' r2;
          Some (''VARCHAR('' @ n @ '')'', r3) }"

text \<open>\<^verbatim>\<open>/BIGINT\s+IDENTITY\(1,1\)/gi\<close> and \<^verbatim>\<open>/INT\s+IDENTITY\(1,1\)/gi\<close>.\<close>

definition m_identity :: "string \<Rightarrow> string \<Rightarrow> (string \<times> string) option" where
  "m_identity ty s =
     do { r1 \<leftarrow> lit_ci ty s;
          (_, r2) \<leftarrow> run1 is_space r1;
          r3 \<leftarrow> lit_ci ''IDENTITY(1,1)'' r2;
          Some (ty @ '' AUTO_INCREMENT'', r3) }"

text \<open>
  The common head of the four ADD patterns, \<^verbatim>\<open>Add\s+\[([^\]]+)\]\s+([A-Z]+)\<close>: the
  column, the type word, and what follows.
\<close>

definition add_head :: "string \<Rightarrow> (string \<times> string \<times> string) option" where
  "add_head s =
     do { r1 \<leftarrow> lit_ci ''Add'' s;
          (_, r2) \<leftarrow> run1 is_space r1;
          r3 \<leftarrow> lit ''['' r2;
          (col, r4) \<leftarrow> run1 (\<lambda>c. c \<noteq> CHR '']'') r3;
          r5 \<leftarrow> lit '']'' r4;
          (_, r6) \<leftarrow> run1 is_space r5;
          (ty, r7) \<leftarrow> run1 is_letter r6;
          Some (col, ty, r7) }"

text \<open>\<^verbatim>\<open>(NULL|NOT NULL)\<close>: the text as it stands in the command, and what follows.\<close>

definition null_clause :: "string \<Rightarrow> (string \<times> string) option" where
  "null_clause s =
     (case lit_ci ''NULL'' s of
        Some r \<Rightarrow> Some (take 4 s, r)
      | None \<Rightarrow> map_option (\<lambda>r. (take 8 s, r)) (lit_ci ''NOT NULL'' s))"

definition charset :: string where
  "charset = '' CHARACTER SET utf8mb4 COLLATE utf8mb4_0900_ai_ci''"

text \<open>Pattern 1, \<^verbatim>\<open>/Add\s+\[([^\]]+)\]\s+([A-Z]+)\((\d+)\)\s+(NULL|NOT NULL)/gi\<close>.\<close>

definition m_add1 :: "string \<Rightarrow> (string \<times> string) option" where
  "m_add1 s =
     do { (col, ty, r7) \<leftarrow> add_head s;
          r8 \<leftarrow> lit ''('' r7;
          (n, r9) \<leftarrow> run1 is_digit r8;
          r10 \<leftarrow> lit '')'' r9;
          (_, r11) \<leftarrow> run1 is_space r10;
          (nul, r12) \<leftarrow> null_clause r11;
          Some (''ADD COLUMN '' @ quoted col @ '' '' @ ty @ ''('' @ n @ '')'' @ charset
                  @ '' '' @ nul, r12) }"

text \<open>Pattern 2, \<^verbatim>\<open>/Add\s+\[([^\]]+)\]\s+([A-Z]+)\((\d+)\)/gi\<close>.\<close>

definition m_add2 :: "string \<Rightarrow> (string \<times> string) option" where
  "m_add2 s =
     do { (col, ty, r7) \<leftarrow> add_head s;
          r8 \<leftarrow> lit ''('' r7;
          (n, r9) \<leftarrow> run1 is_digit r8;
          r10 \<leftarrow> lit '')'' r9;
          Some (''ADD COLUMN '' @ quoted col @ '' '' @ ty @ ''('' @ n @ '')'' @ charset, r10) }"

text \<open>Pattern 3, \<^verbatim>\<open>/Add\s+\[([^\]]+)\]\s+([A-Z]+)\s+(NULL|NOT NULL)/gi\<close>.\<close>

definition m_add3 :: "string \<Rightarrow> (string \<times> string) option" where
  "m_add3 s =
     do { (col, ty, r7) \<leftarrow> add_head s;
          (_, r8) \<leftarrow> run1 is_space r7;
          (nul, r9) \<leftarrow> null_clause r8;
          Some (''ADD COLUMN '' @ quoted col @ '' '' @ ty @ charset @ '' '' @ nul, r9) }"

text \<open>Pattern 4, \<^verbatim>\<open>/Add\s+\[([^\]]+)\]\s+([A-Z]+)/gi\<close>.\<close>

definition m_add4 :: "string \<Rightarrow> (string \<times> string) option" where
  "m_add4 s =
     do { (col, ty, r7) \<leftarrow> add_head s;
          Some (''ADD COLUMN '' @ quoted col @ '' '' @ ty @ charset, r7) }"

text \<open>\<^verbatim>\<open>/DROP\s+\[([^\]]+)\]/gi\<close> and \<^verbatim>\<open>/DROP\s+COLUMN\s+([^\s]+)/gi\<close>.\<close>

definition m_drop_bracket :: "string \<Rightarrow> (string \<times> string) option" where
  "m_drop_bracket s =
     do { r1 \<leftarrow> lit_ci ''DROP'' s;
          (_, r2) \<leftarrow> run1 is_space r1;
          r3 \<leftarrow> lit ''['' r2;
          (col, r4) \<leftarrow> run1 (\<lambda>c. c \<noteq> CHR '']'') r3;
          r5 \<leftarrow> lit '']'' r4;
          Some (''DROP COLUMN '' @ quoted col, r5) }"

definition m_drop_column :: "string \<Rightarrow> (string \<times> string) option" where
  "m_drop_column s =
     do { r1 \<leftarrow> lit_ci ''DROP'' s;
          (_, r2) \<leftarrow> run1 is_space r1;
          r3 \<leftarrow> lit_ci ''COLUMN'' r2;
          (_, r4) \<leftarrow> run1 is_space r3;
          (col, r5) \<leftarrow> run1 (\<lambda>c. \<not> is_space c) r4;
          Some (''DROP COLUMN '' @ quoted col, r5) }"

text \<open>\<^verbatim>\<open>/\[([^\]]+)\]/g\<close> to the name in backticks.\<close>

definition m_bracket :: "string \<Rightarrow> (string \<times> string) option" where
  "m_bracket s =
     do { r1 \<leftarrow> lit ''['' s;
          (name, r2) \<leftarrow> run1 (\<lambda>c. c \<noteq> CHR '']'') r1;
          r3 \<leftarrow> lit '']'' r2;
          Some (quoted name, r3) }"

text \<open>The data-type rewrites that open the \<open>DDL_ALTER_TABLE\<close> branch, in their order.\<close>

definition data_types :: "string \<Rightarrow> string" where
  "data_types sqlCommand =
     (replace_all (m_literal ''NEWID()'' ''UUID()'')
      (replace_all (m_literal ''GETDATE()'' ''NOW()'')
      (replace_all (m_identity ''INT'')
      (replace_all (m_identity ''BIGINT'')
      (replace_all (m_literal ''UNIQUEIDENTIFIER'' ''VARCHAR(36)'')
      (replace_all (m_literal ''DATETIME2'' ''DATETIME'')
      (replace_all (m_literal ''BIT'' ''BOOLEAN'')
      (replace_all (m_literal ''NTEXT'' ''TEXT'')
      (replace_all m_nvarchar
      (replace_all (m_literal ''NVARCHAR(MAX)'' ''TEXT'')
      (replace_all m_bracket_nvarchar
      (replace_all (m_literal ''[dbo].'' []) sqlCommand))))))))))))"

text \<open>
  The translated command, or \<open>None\<close> for \<open>null\<close> (nothing to run). The table name is
  an argument the function never reads.
\<close>

definition convertSqlServerDDLToMySQL :: "string \<Rightarrow> string \<Rightarrow> string \<Rightarrow> string option" where
  "convertSqlServerDDLToMySQL sqlCommand tableName operation =
     (if sqlCommand = [] then None
      else
        (let upperSql = trim (toUpperCase sqlCommand)
         in if operation = ''DDL_ALTER_TABLE'' then
              (let mysqlDDL = data_types sqlCommand
               in if js_includes upperSql ''ADD COLUMN'' \<or> js_includes upperSql ''ADD '' then
                    (if replace_all m_add1 mysqlDDL \<noteq> mysqlDDL
                       then Some (replace_all m_add1 mysqlDDL)
                     else if replace_all m_add2 mysqlDDL \<noteq> mysqlDDL
                       then Some (replace_all m_add2 mysqlDDL)
                     else if replace_all m_add3 mysqlDDL \<noteq> mysqlDDL
                       then Some (replace_all m_add3 mysqlDDL)
                     else if replace_all m_add4 mysqlDDL \<noteq> mysqlDDL
                       then Some (replace_all m_add4 mysqlDDL)
                     else Some mysqlDDL)
                  else if js_includes upperSql ''DROP COLUMN'' then
                    Some (replace_all m_drop_column
                           (replace_all m_drop_bracket
                             (replace_all (m_literal ''dbo.'' []) mysqlDDL)))
                  else if js_includes upperSql ''MODIFY'' \<or> js_includes upperSql ''ALTER COLUMN'' then
                    Some (replace_all (m_literal ''ALTER COLUMN'' ''MODIFY COLUMN'') mysqlDDL)
                  else if js_includes upperSql ''SET (LOCK_ESCALATION''
                          \<or> js_includes upperSql ''SET (LOCK ESCALATION'' then None
                  else Some mysqlDDL)
            else
              Some (replace_all m_bracket (replace_all (m_literal ''[dbo].'' []) sqlCommand))))"


section \<open>The column mappings of the CSV import\<close>

text \<open>
  \<open>buildColumnMappings\<close> names a user variable for every CSV header and writes, for
  every table column that has a CSV column at its index, one \<open>SET\<close> assignment: a
  \<open>CASE\<close> expression over that variable. The expression is a template literal of
  several lines; the model keeps it line by line, with the template's indentation, its
  comments and its two conditional insertions.
\<close>

definition sq :: string where
  "sq = [CHR 0x27]"

definition sanitise :: "char \<Rightarrow> char" where
  "sanitise c = (if is_letter c \<or> is_digit c then c else CHR ''_'')"

definition csv_variable :: "string \<Rightarrow> string" where
  "csv_variable csvCol = ''@'' @ map sanitise csvCol"

definition isProtectedColumn :: "string \<Rightarrow> bool" where
  "isProtectedColumn tableCol = (tableCol = ''StockId'' \<or> tableCol = ''ItemCode'')"

text \<open>The two insertions, each as the lines it contributes when the column is not protected.\<close>

definition boolean_insertion :: "string \<Rightarrow> string list" where
  "boolean_insertion v =
     [indent 20 @ ''WHEN LOWER(TRIM('' @ v @ '')) IN ('true', 'false', 'yes', 'no', 'y', 'n', 'on', 'off') THEN'',
      indent 24 @ ''CASE '',
      indent 28 @ ''WHEN LOWER(TRIM('' @ v @ '')) IN ('true', 'yes', 'y', 'on') THEN 1 '',
      indent 28 @ ''ELSE 0 '',
      indent 24 @ ''END'']"

definition numeric_insertion :: "string \<Rightarrow> string list" where
  "numeric_insertion v =
     [indent 20 @ ''-- Handle pure numeric values (integers and decimals) - only for non-protected columns'',
      indent 20 @ ''WHEN '' @ v @ '' REGEXP '^-?[0-9]+$' THEN CAST('' @ v @ '' AS SIGNED)'',
      indent 20 @ ''WHEN '' @ v @ '' REGEXP '^-?[0-9]+'' @ [CHR 0x5C] @ ''.[0-9]+$' THEN CAST('' @ v
        @ '' AS DECIMAL(18,4))'']"

definition statement_lines :: "string \<Rightarrow> string \<Rightarrow> string list" where
  "statement_lines tableCol v =
     [quoted tableCol @ '' = CASE '',
      indent 20 @ ''-- Handle NULL and empty values first'',
      indent 20 @ ''WHEN '' @ v @ '' IS NULL OR TRIM('' @ v @ '') = '' @ sq @ sq @ '' THEN NULL'',
      indent 20,
      indent 20 @ ''-- Handle boolean values (True/False, 1/0, etc) - but not for protected columns'']
     @ (if \<not> isProtectedColumn tableCol then boolean_insertion v else [indent 20])
     @ [indent 20,
      indent 20 @ ''-- Handle SQL Server default dates and invalid dates'',
      indent 20 @ ''WHEN '' @ v @ '' LIKE '1899-12-30%' OR '' @ v @ '' = '1900-01-01T00:00:00.000Z' OR ''
        @ v @ '' = '0000-00-00' THEN NULL'',
      indent 20,
      indent 20 @ ''-- Handle ISO datetime format (YYYY-MM-DDTHH:MM:SS)'',
      indent 20 @ ''WHEN '' @ v @ '' REGEXP '^[0-9]{4}-[0-9]{2}-[0-9]{2}T[0-9]{2}:[0-9]{2}:[0-9]{2}' THEN '',
      indent 24 @ ''STR_TO_DATE(SUBSTRING('' @ v @ '', 1, 19), '%Y-%m-%dT%H:%i:%s')'',
      indent 20,
      indent 20 @ ''-- Handle standard datetime format (YYYY-MM-DD HH:MM:SS)'',
      indent 20 @ ''WHEN '' @ v @ '' REGEXP '^[0-9]{4}-[0-9]{2}-[0-9]{2} [0-9]{2}:[0-9]{2}:[0-9]{2}' THEN '',
      indent 24 @ ''STR_TO_DATE('' @ v @ '', '%Y-%m-%d %H:%i:%s')'',
      indent 20,
      indent 20 @ ''-- Handle date only format (YYYY-MM-DD)'',
      indent 20 @ ''WHEN '' @ v @ '' REGEXP '^[0-9]{4}-[0-9]{2}-[0-9]{2}$' THEN '',
      indent 24 @ ''STR_TO_DATE('' @ v @ '', '%Y-%m-%d')'',
      indent 20]
     @ (if \<not> isProtectedColumn tableCol then numeric_insertion v else [indent 20])
     @ [indent 20,
      indent 20 @ ''-- Handle text values (trim and keep as-is, preserving leading zeros for protected columns)'',
      indent 20 @ ''ELSE TRIM('' @ v @ '')'',
      indent 16 @ ''END'']"

definition setStatement :: "string \<Rightarrow> string \<Rightarrow> string" where
  "setStatement tableCol csvVar = join nl (statement_lines tableCol csvVar)"

record column_mappings =
  csvColumns :: "string list"
  setStatements :: "string list"

text \<open>
  Table columns are paired with CSV columns by index; a table column beyond the last CSV
  column gets no assignment.
\<close>

definition buildColumnMappings :: "string list \<Rightarrow> string list \<Rightarrow> column_mappings" where
  "buildColumnMappings csvHeaders tableColumns =
     (let csvVariables = map csv_variable csvHeaders
      in \<lparr>csvColumns = csvVariables,
          setStatements = map (\<lambda>(tableCol, csvVar). setStatement tableCol csvVar)
                              (zip tableColumns csvVariables)\<rparr>)"

subsection \<open>The branches of the expression, and what they do to a field\<close>

text \<open>
  To say which branches an expression has, and what it makes of a field, the
  \<open>WHEN\<close> clauses are named, each with the lines it is written as. The code lines of a
  statement are its lines without the blank ones and the comments, each without its
  indentation and trailing blanks.
\<close>

datatype branch =
    NullBlank | BooleanWord | SentinelDate | IsoDateTime | StdDateTime | DateOnly
  | PureInteger | PureDecimal

definition branch_lines :: "string \<Rightarrow> branch \<Rightarrow> string list" where
  "branch_lines v b =
     (case b of
        NullBlank \<Rightarrow>
          [''WHEN '' @ v @ '' IS NULL OR TRIM('' @ v @ '') = '' @ sq @ sq @ '' THEN NULL'']
      | BooleanWord \<Rightarrow>
          [''WHEN LOWER(TRIM('' @ v @ '')) IN ('true', 'false', 'yes', 'no', 'y', 'n', 'on', 'off') THEN'',
           ''CASE'',
           ''WHEN LOWER(TRIM('' @ v @ '')) IN ('true', 'yes', 'y', 'on') THEN 1'',
           ''ELSE 0'',
           ''END'']
      | SentinelDate \<Rightarrow>
          [''WHEN '' @ v @ '' LIKE '1899-12-30%' OR '' @ v @ '' = '1900-01-01T00:00:00.000Z' OR ''
             @ v @ '' = '0000-00-00' THEN NULL'']
      | IsoDateTime \<Rightarrow>
          [''WHEN '' @ v @ '' REGEXP '^[0-9]{4}-[0-9]{2}-[0-9]{2}T[0-9]{2}:[0-9]{2}:[0-9]{2}' THEN'',
           ''STR_TO_DATE(SUBSTRING('' @ v @ '', 1, 19), '%Y-%m-%dT%H:%i:%s')'']
      | StdDateTime \<Rightarrow>
          [''WHEN '' @ v @ '' REGEXP '^[0-9]{4}-[0-9]{2}-[0-9]{2} [0-9]{2}:[0-9]{2}:[0-9]{2}' THEN'',
           ''STR_TO_DATE('' @ v @ '', '%Y-%m-%d %H:%i:%s')'']
      | DateOnly \<Rightarrow>
          [''WHEN '' @ v @ '' REGEXP '^[0-9]{4}-[0-9]{2}-[0-9]{2}$' THEN'',
           ''STR_TO_DATE('' @ v @ '', '%Y-%m-%d')'']
      | PureInteger \<Rightarrow>
          [''WHEN '' @ v @ '' REGEXP '^-?[0-9]+$' THEN CAST('' @ v @ '' AS SIGNED)'']
      | PureDecimal \<Rightarrow>
          [''WHEN '' @ v @ '' REGEXP '^-?[0-9]+'' @ [CHR 0x5C] @ ''.[0-9]+$' THEN CAST('' @ v
             @ '' AS DECIMAL(18,4))''])"

definition is_blank :: "char \<Rightarrow> bool" where
  "is_blank c = (c = CHR '' '')"

definition strip :: "string \<Rightarrow> string" where
  "strip s = rev (dropWhile is_blank (rev (dropWhile is_blank s)))"

definition code_lines :: "string list \<Rightarrow> string list" where
  "code_lines ls = filter (\<lambda>l. l \<noteq> [] \<and> \<not> startsWith ''--'' l) (map strip ls)"

text \<open>
  What the target store makes of a field under such an expression, clause by clause in
  the order they are written: the first clause whose condition holds gives the value, and
  the \<open>ELSE\<close> gives the field without the blanks around it. The conditions are those
  the clauses spell out, read on ASCII text: \<open>TRIM\<close> removes blanks, \<open>LIKE 'p%'\<close>
  is a prefix test, and the regular expressions are patterns of digits and separators. A
  field is \<open>None\<close> when the variable is \<open>NULL\<close>.
\<close>

datatype sql_value =
    SqlNull | SqlInteger int | SqlDecimal string | SqlDateTime string | SqlText string

text \<open>A prefix of a string against a list of character classes, one per position.\<close>

fun match_classes :: "(char \<Rightarrow> bool) list \<Rightarrow> string \<Rightarrow> bool" where
  "match_classes [] s = True"
| "match_classes (P # Ps) [] = False"
| "match_classes (P # Ps) (c # cs) = (P c \<and> match_classes Ps cs)"

definition date_classes :: "(char \<Rightarrow> bool) list" where
  "date_classes =
     [is_digit, is_digit, is_digit, is_digit, (\<lambda>c. c = CHR ''-''),
      is_digit, is_digit, (\<lambda>c. c = CHR ''-''), is_digit, is_digit]"

definition time_classes :: "(char \<Rightarrow> bool) list" where
  "time_classes =
     [is_digit, is_digit, (\<lambda>c. c = CHR '':''), is_digit, is_digit, (\<lambda>c. c = CHR '':''),
      is_digit, is_digit]"

definition digits :: "string \<Rightarrow> bool" where
  "digits s = (s \<noteq> [] \<and> list_all is_digit s)"

definition unsigned_part :: "string \<Rightarrow> string" where
  "unsigned_part s = (case s of [] \<Rightarrow> [] | c # cs \<Rightarrow> if c = CHR ''-'' then cs else s)"

text \<open>The number a string of digits denotes, with a sign in front or without.\<close>

definition digit_value :: "char \<Rightarrow> int" where
  "digit_value c = int (of_char c) - 48"

definition number_of :: "string \<Rightarrow> int" where
  "number_of s =
     (let n = foldl (\<lambda>acc c. 10 * acc + digit_value c) 0 (unsigned_part s)
      in if unsigned_part s \<noteq> s then - n else n)"

definition lower_char :: "char \<Rightarrow> char" where
  "lower_char c =
     (case map_of (zip ''ABCDEFGHIJKLMNOPQRSTUVWXYZ'' ''abcdefghijklmnopqrstuvwxyz'') c of
        Some l \<Rightarrow> l
      | None \<Rightarrow> c)"

fun branch_holds :: "branch \<Rightarrow> string \<Rightarrow> bool" where
  "branch_holds NullBlank s = (strip s = [])"
| "branch_holds BooleanWord s =
     (map lower_char (strip s) \<in> set [''true'', ''false'', ''yes'', ''no'', ''y'', ''n'', ''on'', ''off''])"
| "branch_holds SentinelDate s =
     (startsWith ''1899-12-30'' s \<or> s = ''1900-01-01T00:00:00.000Z'' \<or> s = ''0000-00-00'')"
| "branch_holds IsoDateTime s =
     match_classes (date_classes @ [\<lambda>c. c = CHR ''T''] @ time_classes) s"
| "branch_holds StdDateTime s =
     match_classes (date_classes @ [\<lambda>c. c = CHR '' ''] @ time_classes) s"
| "branch_holds DateOnly s = (length s = 10 \<and> match_classes date_classes s)"
| "branch_holds PureInteger s = digits (unsigned_part s)"
| "branch_holds PureDecimal s =
     (case split_on ''.'' (unsigned_part s) of
        None \<Rightarrow> False
      | Some (whole, fraction) \<Rightarrow> digits whole \<and> digits fraction)"

fun branch_value :: "branch \<Rightarrow> string \<Rightarrow> sql_value" where
  "branch_value NullBlank s = SqlNull"
| "branch_value BooleanWord s =
     (if map lower_char (strip s) \<in> set [''true'', ''yes'', ''y'', ''on'']
      then SqlInteger 1 else SqlInteger 0)"
| "branch_value SentinelDate s = SqlNull"
| "branch_value IsoDateTime s = SqlDateTime (take 19 s)"
| "branch_value StdDateTime s = SqlDateTime s"
| "branch_value DateOnly s = SqlDateTime s"
| "branch_value PureInteger s = SqlInteger (number_of s)"
| "branch_value PureDecimal s = SqlDecimal s"

fun case_value :: "branch list \<Rightarrow> string \<Rightarrow> sql_value" where
  "case_value [] s = SqlText (strip s)"
| "case_value (b # bs) s = (if branch_holds b s then branch_value b s else case_value bs s)"

definition coerce :: "branch list \<Rightarrow> string option \<Rightarrow> sql_value" where
  "coerce bs field = (case field of None \<Rightarrow> SqlNull | Some s \<Rightarrow> case_value bs s)"

text \<open>The clauses an expression has, by the column it is written for.\<close>

definition expression_branches :: "string \<Rightarrow> branch list" where
  "expression_branches tableCol =
     [NullBlank] @ (if \<not> isProtectedColumn tableCol then [BooleanWord] else [])
     @ [SentinelDate, IsoDateTime, StdDateTime, DateOnly]
     @ (if \<not> isProtectedColumn tableCol then [PureInteger, PureDecimal] else [])"

section \<open>Chunked upload\<close>

record upload_start =
  us_tableName :: string
  us_fileName :: string
  us_totalChunks :: nat
  us_fileSizeBytes :: nat
  us_rowCount :: nat

record upload_chunk =
  uc_tableName :: string
  uc_fileName :: string
  chunkIndex :: nat
  uc_totalChunks :: nat
  chunkContent :: string
  isLastChunk :: bool

text \<open>
  The key of an upload, \<^verbatim>\<open>`${socket.appId}_${fileName}`\<close>; an unset \<open>appId\<close> prints
  as \<open>undefined\<close>.
\<close>

definition chunkKey :: "string option \<Rightarrow> string \<Rightarrow> string" where
  "chunkKey appId fileName =
     (case appId of None \<Rightarrow> ''undefined'' | Some a \<Rightarrow> a) @ ''_'' @ fileName"

definition csv_bulk_upload_start :: "session \<Rightarrow> upload_start \<Rightarrow> session" where
  "csv_bulk_upload_start sock data =
     sock\<lparr>csvChunkStorage :=
            AList.update (chunkKey (socket_appId sock) (us_fileName data))
              \<lparr>ui_appId = socket_appId sock,
               ui_tableName = us_tableName data,
               ui_fileName = us_fileName data,
               ui_totalChunks = us_totalChunks data,
               ui_fileSizeBytes = us_fileSizeBytes data,
               ui_rowCount = us_rowCount data,
               chunks = []\<rparr>
              (csvChunkStorage sock)\<rparr>"

text \<open>
  The loop that writes the chunks: for each index in turn the chunk is looked up, a
  missing one (or an empty one: the test is \<open>!chunk\<close>) throws, and any other is decoded
  and written. The result is the writes done and the index that threw, if one did.
  \<open>decode\<close> stands for \<open>Buffer.from(chunk, 'base64')\<close>.
\<close>

fun write_chunks ::
  "(string \<Rightarrow> string) \<Rightarrow> string \<Rightarrow> (nat \<times> string) list \<Rightarrow> nat list
     \<Rightarrow> action list \<times> nat option"
where
  "write_chunks decode filePath received [] = ([], None)"
| "write_chunks decode filePath received (i # is) =
     (case map_of received i of
        None \<Rightarrow> ([], Some i)
      | Some chunk \<Rightarrow>
          if chunk = [] then ([], Some i)
          else (let (writes, missing) = write_chunks decode filePath received is
                in (WriteFile filePath (decode chunk) # writes, missing)))"

definition uploads_path :: "string \<Rightarrow> string" where
  "uploads_path fileName = ''uploads/'' @ fileName"

text \<open>
  The handler of \<open>csv_bulk_upload_chunk\<close>. Without an accumulator under the key it
  only logs. Otherwise it stores the chunk and, when the number of stored chunks equals
  the \<open>totalChunks\<close> of this message, writes the file; on success it deletes the
  accumulator, answers, and starts the import from a timer of two seconds; when a chunk
  is missing it answers with the failure and keeps the accumulator.
\<close>

definition csv_bulk_upload_chunk ::
  "(string \<Rightarrow> string) \<Rightarrow> session \<Rightarrow> upload_chunk \<Rightarrow> session \<times> action list"
where
  "csv_bulk_upload_chunk decode sock data =
     (let key = chunkKey (socket_appId sock) (uc_fileName data)
      in case map_of (csvChunkStorage sock) key of
           None \<Rightarrow> (sock, [])
         | Some found \<Rightarrow>
             (let uploadInfo =
                    found\<lparr>chunks := AList.update (chunkIndex data) (chunkContent data)
                                       (chunks found)\<rparr>;
                  sock' = sock\<lparr>csvChunkStorage :=
                                 AList.update key uploadInfo (csvChunkStorage sock)\<rparr>
              in if length (chunks uploadInfo) = uc_totalChunks data then
                   (let filePath = uploads_path (uc_fileName data);
                        (writes, missing) =
                          write_chunks decode filePath (chunks uploadInfo)
                            [0..<uc_totalChunks data]
                    in case missing of
                         Some i \<Rightarrow>
                           (sock',
                            OpenFile filePath # writes
                            @ [Emit (Csv_bulk_upload_response (ui_fileName uploadInfo) False)])
                       | None \<Rightarrow>
                           (sock'\<lparr>csvChunkStorage := AList.delete key (csvChunkStorage sock')\<rparr>,
                            OpenFile filePath # writes
                            @ [CloseFile filePath,
                               Emit (Csv_bulk_upload_response (ui_fileName uploadInfo) True),
                               SetTimeout 2000
                                 (ProcessSingleCSVFile (socket_storeId sock) (ui_appId uploadInfo)
                                    (ui_tableName uploadInfo) (ui_fileName uploadInfo))]))
                 else (sock', [])))"

text \<open>A run of chunk messages on one connection, and the actions it adds up to.\<close>

fun upload_run ::
  "(string \<Rightarrow> string) \<Rightarrow> session \<Rightarrow> upload_chunk list \<Rightarrow> session \<times> action list"
where
  "upload_run decode sock [] = (sock, [])"
| "upload_run decode sock (d # ds) =
     (let (sock1, acts1) = csv_bulk_upload_chunk decode sock d;
          (sock2, acts2) = upload_run decode sock1 ds
      in (sock2, acts1 @ acts2))"

text \<open>
  The bytes a file holds after a list of actions: opening it empties it, a write appends.
\<close>

fun file_content :: "string \<Rightarrow> string \<Rightarrow> action list \<Rightarrow> string" where
  "file_content filePath acc [] = acc"
| "file_content filePath acc (OpenFile p # as) =
     file_content filePath (if p = filePath then [] else acc) as"
| "file_content filePath acc (WriteFile p bytes # as) =
     file_content filePath (if p = filePath then acc @ bytes else acc) as"
| "file_content filePath acc (_ # as) = file_content filePath acc as"

text \<open>
  The messages of an upload of \<open>contents\<close>: the message of chunk \<open>i\<close> carries
  \<open>contents ! i\<close> and, as its \<open>totalChunks\<close>, the number \<open>totalChunks i\<close>; they arrive
  in the order \<open>arrival\<close> of their indices.
\<close>

definition chunk_message ::
  "string \<Rightarrow> string \<Rightarrow> (nat \<Rightarrow> nat) \<Rightarrow> string list \<Rightarrow> nat \<Rightarrow> upload_chunk"
where
  "chunk_message tableName fileName totalChunks contents i =
     \<lparr>uc_tableName = tableName, uc_fileName = fileName, chunkIndex = i,
      uc_totalChunks = totalChunks i, chunkContent = contents ! i,
      isLastChunk = (i = length contents - 1)\<rparr>"

definition chunk_messages ::
  "string \<Rightarrow> string \<Rightarrow> (nat \<Rightarrow> nat) \<Rightarrow> string list \<Rightarrow> nat list \<Rightarrow> upload_chunk list"
where
  "chunk_messages tableName fileName totalChunks contents arrival =
     map (chunk_message tableName fileName totalChunks contents) arrival"

text \<open>The chunks an accumulator holds once the messages \<open>xs\<close> have been stored.\<close>

definition received :: "string list \<Rightarrow> nat list \<Rightarrow> (nat \<times> string) list" where
  "received contents xs = map (\<lambda>i. (i, contents ! i)) xs"

section \<open>The handlers of a connection\<close>

text \<open>
  The handlers that \<open>io.on('connection')\<close> registers on a socket, each under the name
  of its event, as functions of the connection's state and the event's argument that
  return the state and what the handler did. The argument is \<open>None\<close> when the peer sent
  the event without one (the handler's \<open>data\<close> is \<open>undefined\<close>), and otherwise holds the
  properties the handler reads. What lies outside the program is an argument of the
  handler: the tenant database and the license service, \<open>dbManager.executeQuery\<close>, and
  the work a handler does on the target store once it has resolved a database.

  A handler that reads a property of a missing argument throws a \<open>TypeError\<close>. Where
  its \<open>catch\<close> reads a property of the argument again to build the error event, that
  throws too, out of the handler: nothing is emitted.
\<close>


definition show_id :: "string option \<Rightarrow> string" where
  "show_id v = (case v of None \<Rightarrow> ''undefined'' | Some s \<Rightarrow> s)"

subsection \<open>\<open>sync_data\<close>\<close>






subsection \<open>\<open>batch_sync\<close> and \<open>ping\<close>\<close>




subsection \<open>\<open>sync_ddl_operation\<close>\<close>

record ddl_payload =
  dd_appId :: "string option"
  dd_storeId :: "string option"
  dd_tableName :: string
  dd_operation :: string
  dd_sqlCommand :: string
  dd_syncId :: "string option"

text \<open>
  The database is resolved from the event's \<open>storeId\<close> and \<open>appId\<close>; a command that
  translates to nothing (\<open>!mysqlDDL\<close>: \<open>null\<close> or the empty string) is answered as
  skipped, any other is executed. Without an argument the destructuring throws, and so
  does \<open>data.syncId\<close> in the \<open>catch\<close>.
\<close>

definition sync_ddl_operation ::
  "tenant_db \<Rightarrow> license_service \<Rightarrow> (string \<Rightarrow> string \<Rightarrow> string + 'r) \<Rightarrow> session
     \<Rightarrow> ddl_payload option \<Rightarrow> session \<times> action list"
where
  "sync_ddl_operation db svc executeDDL sock argument =
     (case argument of
        None \<Rightarrow> (sock, [])
      | Some data \<Rightarrow>
          (case getDatabaseByStoreAndApp db svc (dd_storeId data) (dd_appId data) of
             None \<Rightarrow>
               (sock, [Emit (Ddl_sync_error (dd_syncId data)
                               (''No database configuration found for Store ''
                                @ show_id (dd_storeId data)))])
           | Some database \<Rightarrow>
               (case convertSqlServerDDLToMySQL (dd_sqlCommand data) (dd_tableName data)
                       (dd_operation data) of
                  None \<Rightarrow> (sock, [Emit (Ddl_sync_success (dd_syncId data) True)])
                | Some mysqlDDL \<Rightarrow>
                    if mysqlDDL = []
                    then (sock, [Emit (Ddl_sync_success (dd_syncId data) True)])
                    else
                      (case executeDDL database mysqlDDL of
                         Inr result \<Rightarrow>
                           (sock, [Emit (Ddl_sync_success (dd_syncId data) False)])
                       | Inl e \<Rightarrow>
                           (sock, [Emit (Ddl_sync_error (dd_syncId data)
                                           (''DDL execution failed: '' @ e))])))))"

subsection \<open>The handlers that check the identification\<close>









section \<open>Fixtures\<close>

text \<open>The tenant of the expiry scenario, licensed until 2020-01-01T00:00:00Z.\<close>

definition db0 :: tenant_db where
  "db0 = \<lparr>reachable = True, stores = [\<lparr>StoreId = ''239'', StoreName = ''Shop'',
      AdvancedReportAppId = ''A'', AdvancedReportLicenseExpire = Some 1577836800000\<rparr>]\<rparr>"

text \<open>A connection that has identified as store 239 with application A.\<close>

definition shop_session :: session where
  "shop_session = new_session\<lparr>socket_storeId := Some ''239'', socket_appId := Some ''A''\<rparr>"

text \<open>The license service once the server has started: its pool exists.\<close>

definition pooled :: license_service where
  "pooled = \<lparr>connectionPool = True\<rparr>"


definition skip_payload :: ddl_payload where
  "skip_payload =
     \<lparr>dd_appId = Some ''A'', dd_storeId = Some ''239'', dd_tableName = ''Sales'',
      dd_operation = ''DDL_ALTER_TABLE'',
      dd_sqlCommand = ''ALTER TABLE [dbo].[Sales] SET (LOCK_ESCALATION = TABLE)'',
      dd_syncId = Some ''d1''\<rparr>"

chapter \<open>Properties\<close>

section \<open>Assignment to a property\<close>

lemma update_fresh: "k \<notin> fst ` set al \<Longrightarrow> AList.update k v al = al @ [(k, v)]"
  by (induction al) auto

lemma assign_plain: "plain_key k \<Longrightarrow> assign k v p = AList.update k v p"
  by (simp add: assign_def plain_key_def)

lemma map_of_insert_index:
  "k \<notin> fst ` set p \<Longrightarrow> map_of (insert_index k v p) = (map_of p)(k \<mapsto> v)"
proof (induction p)
  case Nil
  show ?case by simp
next
  case (Cons a p)
  obtain k' v' where a: "a = (k', v')" by (cases a)
  from Cons.prems have ne: "k \<noteq> k'" and fresh: "k \<notin> fst ` set p" by (auto simp: a)
  show ?case
    using Cons.IH [OF fresh] ne by (auto simp: a fun_upd_twist)
qed

lemma map_of_assign:
  "k \<noteq> ''__proto__'' \<Longrightarrow> map_of (assign k v p) = (map_of p)(k \<mapsto> v)"
  by (auto simp: assign_def has_key_def update_conv' map_of_insert_index map_of_eq_None_iff)

section \<open>License validation\<close>




section \<open>The license gate of \<open>identify\<close>\<close>

text \<open>
  Claim C7, as the code has it. For an \<open>identify\<close> with service type
  \<open>advanced_online_report\<close>: when \<open>storeId\<close> or \<open>appId\<close> is missing or empty the
  handler emits \<open>license_error\<close> with code 400 and disconnects at once, with no timer;
  when both are there and the license is invalid or expired it emits
  \<open>license_expired\<close> with code 410 and the store snapshot, and hands the disconnect to
  a timer of 1000 ms. Neither path binds anything on the session.
\<close>

theorem identify_license_gate:
  assumes adv: "id_serviceType d = Some ''advanced_online_report''"
  shows "(\<not> present (id_storeId d) \<or> \<not> present (id_appId d) \<longrightarrow>
            identify db now svc sock (Some d) =
              ((svc, sock),
               [Emit (License_error 400 ''Missing storeId or appId for Advanced Online Report''),
                Disconnect]))
       \<and> (present (id_storeId d) \<and> present (id_appId d) \<longrightarrow>
            (let (svc', v) = validateAdvancedReportLicense db now svc
                               (the (id_storeId d)) (the (id_appId d))
             in \<not> isValid v \<or> isExpired v \<longrightarrow>
                identify db now svc sock (Some d) =
                  ((svc', sock),
                   [Emit (License_expired 410 (storeInfo v)), SetTimeout 1000 Disconnect])
                \<and> closes_after_grace (snd (identify db now svc sock (Some d)))))"
  using adv
  by (auto simp: identify_def Let_def closes_after_grace_def split: prod.splits)

text \<open>
  The expiry scenario (tenant 239, licensed until 2020, identified in 2023) and an
  \<open>identify\<close> without \<open>appId\<close>.
\<close>

theorem identify_license_gate_witness:
  "snd (identify db0 1700000000000 \<lparr>connectionPool = True\<rparr> new_session
         (Some \<lparr>id_storeId = Some ''239'', id_appId = Some ''A'',
                id_serviceType = Some ''advanced_online_report''\<rparr>))
     = [Emit (License_expired 410
          (Some \<lparr>si_storeId = ''239'', si_storeName = ''Shop'', si_appId = ''A'',
                 si_expireDate = 1577836800000, si_daysRemaining = 0\<rparr>)),
        SetTimeout 1000 Disconnect]
   \<and> snd (identify db0 1700000000000 \<lparr>connectionPool = True\<rparr> new_session
         (Some \<lparr>id_storeId = Some ''239'', id_appId = None,
                id_serviceType = Some ''advanced_online_report''\<rparr>))
     = [Emit (License_error 400 ''Missing storeId or appId for Advanced Online Report''),
        Disconnect]"
  using identify_license_gate [of "\<lparr>id_storeId = Some ''239'', id_appId = Some ''A'',
                id_serviceType = Some ''advanced_online_report''\<rparr>" db0 1700000000000
                "\<lparr>connectionPool = True\<rparr>" new_session]
    identify_license_gate [of "\<lparr>id_storeId = Some ''239'', id_appId = None,
                id_serviceType = Some ''advanced_online_report''\<rparr>" db0 1700000000000
                "\<lparr>connectionPool = True\<rparr>" new_session]
  by (simp add: present_def db0_def validateAdvancedReportLicense_def initialize_def
      select_store_def expire_ms_def Let_def)

text \<open>
  The claim as the spec words it has the connection closed only after a grace period on
  the missing-credentials path too. An \<open>identify\<close> without \<open>storeId\<close> is
  disconnected in the same turn.
\<close>

theorem identify_missing_credentials_counterexample:
  "\<not> closes_after_grace
       (snd (identify db0 1700000000000 \<lparr>connectionPool = True\<rparr> new_session
         (Some \<lparr>id_storeId = None, id_appId = Some ''A'',
                id_serviceType = Some ''advanced_online_report''\<rparr>)))
   \<and> closes_now
       (snd (identify db0 1700000000000 \<lparr>connectionPool = True\<rparr> new_session
         (Some \<lparr>id_storeId = None, id_appId = Some ''A'',
                id_serviceType = Some ''advanced_online_report''\<rparr>)))"
  by (simp add: identify_def present_def closes_after_grace_def)

section \<open>The XML decoder on the wire grammar\<close>

lemma startsWith_append: "startsWith p (p @ r)"
  by (induction p) auto

lemma startsWith_iff: "startsWith p s \<longleftrightarrow> (\<exists>r. s = p @ r)"
  by (induction p s rule: startsWith.induct) auto

lemma match_tag_render:
  assumes "wf_pair (t, v)"
  shows "match_tag (render_pair (t, v) @ rest) = Some (t, v, rest)"
proof -
  from assms have t: "t \<noteq> []" "CHR ''>'' \<notin> set t" and v: "CHR ''<'' \<notin> set v"
    by (auto simp: wf_pair_def wf_tag_def)
  have tw: "takeWhile (\<lambda>x. x \<noteq> CHR ''>'') (t @ CHR ''>'' # s) = t" for s
    using t by (auto simp: takeWhile_tail)
  have dw: "dropWhile (\<lambda>x. x \<noteq> CHR ''>'') (t @ CHR ''>'' # s) = CHR ''>'' # s" for s
    using t by (auto simp: dropWhile_append3)
  have tv: "takeWhile (\<lambda>x. x \<noteq> CHR ''<'') (v @ CHR ''<'' # s) = v" for s
    using v by (auto simp: takeWhile_tail)
  have dv: "dropWhile (\<lambda>x. x \<noteq> CHR ''<'') (v @ CHR ''<'' # s) = CHR ''<'' # s" for s
    using v by (auto simp: dropWhile_append3)
  have sw: "startsWith (CHR ''<'' # CHR ''/'' # t @ ''>'') (CHR ''<'' # CHR ''/'' # t @ CHR ''>'' # rest)"
    using startsWith_append [of "CHR ''<'' # CHR ''/'' # t @ ''>''" rest] by simp
  show ?thesis
    using t sw by (simp add: match_tag_def render_pair_def tw dw tv dv Let_def)
qed

lemma scan_tags_render:
  "list_all wf_pair ps \<Longrightarrow> scan_tags (render_pairs ps) = ps"
proof (induction ps)
  case Nil
  then show ?case by (simp add: render_pairs_def)
next
  case (Cons p ps)
  obtain t v where p: "p = (t, v)" by (cases p)
  from Cons.prems p have wf: "wf_pair (t, v)" by simp
  have r: "render_pairs ((t, v) # ps) = render_pair (t, v) @ render_pairs ps"
    by (simp add: render_pairs_def)
  have ne: "render_pair (t, v) @ render_pairs ps = CHR ''<'' # tl (render_pair (t, v) @ render_pairs ps)"
    by (simp add: render_pair_def)
  have "scan_tags (render_pair (t, v) @ render_pairs ps) = (t, v) # scan_tags (render_pairs ps)"
    apply (subst ne)
    apply (subst scan_tags.simps)
    apply (subst ne [symmetric])
    apply (simp add: match_tag_render [OF wf])
    done
  with Cons show ?case by (simp add: r p)
qed

lemma assign_tags_entries:
  "distinct (map fst acc @ map (\<lambda>p. pre @ fst p) ps)
   \<Longrightarrow> list_all (\<lambda>p. plain_key (pre @ fst p)) ps
   \<Longrightarrow> assign_tags pre ps acc = acc @ entries pre ps"
proof (induction ps arbitrary: acc)
  case Nil
  then show ?case by (simp add: entries_def)
next
  case (Cons p ps)
  obtain t v where p: "p = (t, v)" by (cases p)
  show ?case
  proof (cases "trim v = []")
    case True
    from Cons.prems have "distinct (map fst acc @ map (\<lambda>p. pre @ fst p) ps)"
      "list_all (\<lambda>p. plain_key (pre @ fst p)) ps"
      by (simp_all add: p)
    from Cons.IH [OF this] True show ?thesis
      by (simp add: p entries_def)
  next
    case False
    from Cons.prems have fresh: "pre @ t \<notin> fst ` set acc" and plain: "plain_key (pre @ t)"
      and rest: "list_all (\<lambda>p. plain_key (pre @ fst p)) ps"
      by (auto simp: p)
    from Cons.prems
    have d: "distinct (map fst (acc @ [(pre @ t, JStr (trim v))]) @ map (\<lambda>p. pre @ fst p) ps)"
      by (auto simp: p)
    from Cons.IH [OF d rest] False fresh show ?thesis
      by (simp add: p entries_def assign_plain [OF plain] update_fresh)
  qed
qed

text \<open>
  Whatever the keys are, but for \<open>__proto__\<close>: the entries of the object, as a map.
\<close>

lemma dom_entries: "fst ` set (entries pre ps) \<subseteq> (\<lambda>p. pre @ fst p) ` set ps"
  by (induction ps) (auto simp: entries_def)

lemma disjoint_subsets: "A \<inter> B = {} \<Longrightarrow> A' \<subseteq> A \<Longrightarrow> B' \<subseteq> B \<Longrightarrow> A' \<inter> B' = {}"
  by blast

lemma map_of_assign_tags:
  "distinct (map (\<lambda>p. pre @ fst p) ps)
   \<Longrightarrow> list_all (\<lambda>p. pre @ fst p \<noteq> ''__proto__'') ps
   \<Longrightarrow> map_of (assign_tags pre ps acc) = map_of acc ++ map_of (entries pre ps)"
proof (induction ps arbitrary: acc)
  case Nil
  then show ?case by (simp add: entries_def)
next
  case (Cons p ps)
  obtain t v where p: "p = (t, v)" by (cases p)
  from Cons.prems have d: "distinct (map (\<lambda>p. pre @ fst p) ps)"
    and np: "list_all (\<lambda>p. pre @ fst p \<noteq> ''__proto__'') ps"
    and k: "pre @ t \<noteq> ''__proto__''"
    and fresh: "pre @ t \<notin> (\<lambda>p. pre @ fst p) ` set ps"
    by (auto simp: p)
  show ?case
  proof (cases "trim v = []")
    case True
    with Cons.IH [OF d np] show ?thesis
      by (simp add: p entries_def)
  next
    case False
    from fresh dom_entries [of pre ps] have nd: "pre @ t \<notin> dom (map_of (entries pre ps))"
      by (auto simp: dom_map_of_conv_image_fst)
    have e: "entries pre ((t, v) # ps) = (pre @ t, JStr (trim v)) # entries pre ps"
      using False by (simp add: entries_def)
    have "map_of (assign_tags pre ((t, v) # ps) acc)
          = map_of (assign (pre @ t) (JStr (trim v)) acc) ++ map_of (entries pre ps)"
      using False Cons.IH [OF d np] by simp
    also have "\<dots> = (map_of acc)(pre @ t \<mapsto> JStr (trim v)) ++ map_of (entries pre ps)"
      by (simp only: map_of_assign [OF k])
    also have "\<dots> = (map_of acc ++ map_of (entries pre ps))(pre @ t \<mapsto> JStr (trim v))"
      by (rule map_add_upd_left [OF nd])
    also have "\<dots> = map_of acc ++ map_of (entries pre ((t, v) # ps))"
      unfolding e by simp
    finally show ?thesis by (simp add: p)
  qed
qed

lemma wf_not_proto: "list_all wf_pair ps \<Longrightarrow> list_all (\<lambda>p. [] @ fst p \<noteq> ''__proto__'') ps"
  by (induction ps) (auto simp: wf_pair_def wf_tag_def)

lemma old_not_proto: "list_all (\<lambda>p. ''old_'' @ fst p \<noteq> ''__proto__'') ps"
  by (induction ps) auto

lemma old_plain: "list_all (\<lambda>p. plain_key (''old_'' @ fst p)) ps"
  by (induction ps) (auto simp: plain_key_def is_index_def is_digit_def)

lemma wf_plain:
  "list_all wf_pair ps \<Longrightarrow> \<not> list_ex is_index (map fst ps)
   \<Longrightarrow> list_all (\<lambda>p. plain_key ([] @ fst p)) ps"
  by (induction ps) (auto simp: wf_pair_def wf_tag_def plain_key_def)

text \<open>
  Searching for a literal that opens with \<open><\<close>: the search passes over text without
  \<open><\<close>, and over a well-formed pair, where no envelope literal can begin.
\<close>

lemma split_on_skip:
  assumes "\<forall>c\<in>set xs. c \<noteq> CHR ''<''"
  shows "split_on (CHR ''<'' # q) (xs @ s) =
         map_option (\<lambda>(b, a). (xs @ b, a)) (split_on (CHR ''<'' # q) s)"
  using assms
proof (induction xs)
  case Nil
  show ?case by (simp add: option.map_ident split_def)
next
  case (Cons x xs)
  then show ?case
    by (cases "split_on (CHR ''<'' # q) s") (auto simp: option.map_comp split_def)
qed

lemma split_on_step:
  assumes "\<not> startsWith pat (c # s)"
  shows "split_on pat (c # s) = map_option (\<lambda>(b, a). (c # b, a)) (split_on pat s)"
  using assms by simp

lemma startsWith_name:
  assumes "CHR ''>'' \<notin> set n" "CHR ''>'' \<notin> set t"
  shows "startsWith (n @ ''>'') (t @ CHR ''>'' # r) \<longleftrightarrow> n = t"
  using assms
proof (induction n arbitrary: t)
  case Nil
  then show ?case by (cases t) auto
next
  case (Cons a n)
  then show ?case by (cases t) auto
qed

lemma no_marker_open:
  assumes "wf_tag t" "marker q"
  shows "\<not> startsWith (CHR ''<'' # q) (CHR ''<'' # t @ CHR ''>'' # r)"
proof -
  from assms(1) have t: "CHR ''>'' \<notin> set t" "t \<noteq> ''new''" "t \<noteq> ''old''" "CHR ''/'' \<notin> set t"
    by (auto simp: wf_tag_def)
  then have s: "t \<noteq> ''/new''" "t \<noteq> ''/old''" by auto
  from assms(2) consider "q = ''new'' @ ''>''" | "q = ''/new'' @ ''>''" | "q = ''old'' @ ''>''"
    | "q = ''/old'' @ ''>''"
    by (auto simp: marker_def)
  then show ?thesis
  proof cases
    case 1 then show ?thesis using startsWith_name [of "''new''" t r] t by auto
  next
    case 2 then show ?thesis using startsWith_name [of "''/new''" t r] t s by auto
  next
    case 3 then show ?thesis using startsWith_name [of "''old''" t r] t by auto
  next
    case 4 then show ?thesis using startsWith_name [of "''/old''" t r] t s by auto
  qed
qed

lemma no_marker_close:
  assumes "wf_tag t" "marker q"
  shows "\<not> startsWith (CHR ''<'' # q) (CHR ''<'' # CHR ''/'' # t @ CHR ''>'' # r)"
proof -
  from assms(1) have t: "CHR ''>'' \<notin> set t" "t \<noteq> ''new''" "t \<noteq> ''old''" "t \<noteq> []"
      "CHR ''/'' \<notin> set t"
    by (auto simp: wf_tag_def)
  from assms(2) consider "q = ''new>''" | "q = CHR ''/'' # ''new'' @ ''>''" | "q = ''old>''"
    | "q = CHR ''/'' # ''old'' @ ''>''"
    by (auto simp: marker_def)
  then show ?thesis
  proof cases
    case 1 then show ?thesis by simp
  next
    case 2 then show ?thesis using startsWith_name [of "''new''" t r] t by auto
  next
    case 3 then show ?thesis by simp
  next
    case 4 then show ?thesis using startsWith_name [of "''old''" t r] t by auto
  qed
qed

lemma split_on_render_pair:
  assumes wf: "wf_pair (t, v)" and m: "marker q"
  shows "split_on (CHR ''<'' # q) (render_pair (t, v) @ s) =
         map_option (\<lambda>(b, a). (render_pair (t, v) @ b, a)) (split_on (CHR ''<'' # q) s)"
proof -
  let ?pat = "CHR ''<'' # q"
  from wf have wt: "wf_tag t" and t: "\<forall>c\<in>set t. c \<noteq> CHR ''<''" and v: "\<forall>c\<in>set v. c \<noteq> CHR ''<''"
    by (auto simp: wf_pair_def wf_tag_def)
  have seg1: "\<forall>c\<in>set (t @ CHR ''>'' # v). c \<noteq> CHR ''<''" using t v by auto
  have seg2: "\<forall>c\<in>set (CHR ''/'' # t @ ''>''). c \<noteq> CHR ''<''" using t by auto
  have r: "render_pair (t, v) @ s
         = CHR ''<'' # (t @ CHR ''>'' # v) @ CHR ''<'' # (CHR ''/'' # t @ ''>'') @ s"
    by (simp add: render_pair_def)
  have n1: "\<not> startsWith ?pat (CHR ''<'' # (t @ CHR ''>'' # v) @ CHR ''<'' # (CHR ''/'' # t @ ''>'') @ s)"
    using no_marker_open [OF wt m] by simp
  have n2: "\<not> startsWith ?pat (CHR ''<'' # (CHR ''/'' # t @ ''>'') @ s)"
    using no_marker_close [OF wt m] by simp
  show ?thesis
    unfolding r
    apply (subst split_on_step [OF n1])
    apply (subst split_on_skip [OF seg1])
    apply (subst split_on_step [OF n2])
    apply (subst split_on_skip [OF seg2])
    apply (cases "split_on ?pat s")
     apply (auto simp: split_def render_pair_def)
    done
qed

lemma split_on_render_pairs:
  assumes "list_all wf_pair ps" "marker q"
  shows "split_on (CHR ''<'' # q) (render_pairs ps @ s) =
         map_option (\<lambda>(b, a). (render_pairs ps @ b, a)) (split_on (CHR ''<'' # q) s)"
  using assms(1)
proof (induction ps)
  case Nil
  show ?case by (simp add: render_pairs_def option.map_ident split_def)
next
  case (Cons p ps)
  obtain t v where p: "p = (t, v)" by (cases p)
  from Cons.prems have wf: "wf_pair (t, v)" and rest: "list_all wf_pair ps" by (auto simp: p)
  have r: "render_pairs (p # ps) @ s = render_pair (t, v) @ render_pairs ps @ s"
    by (simp add: render_pairs_def p)
  show ?case
    unfolding r split_on_render_pair [OF wf assms(2)] Cons.IH [OF rest]
    by (cases "split_on (CHR ''<'' # q) s") (auto simp: render_pairs_def p)
qed

lemma no_marker_in_pairs:
  assumes "list_all wf_pair ps" "marker q"
  shows "\<not> js_includes (render_pairs ps) (CHR ''<'' # q)"
  using split_on_render_pairs [OF assms, of "[]"] by (simp add: js_includes_def)


lemma markers: "marker ''new>''" "marker ''/new>''" "marker ''old>''" "marker ''/old>''"
  by (simp_all add: marker_def)

lemma envelope_new:
  assumes "list_all wf_pair ns"
  shows "split_on ''<new>'' (''<new>'' @ render_pairs ns @ ''</new>'' @ rest)
           = Some ([], render_pairs ns @ ''</new>'' @ rest)"
    and "split_on ''</new>'' (render_pairs ns @ ''</new>'' @ rest) = Some (render_pairs ns, rest)"
proof -
  show "split_on ''<new>'' (''<new>'' @ render_pairs ns @ ''</new>'' @ rest)
           = Some ([], render_pairs ns @ ''</new>'' @ rest)"
    by simp
  show "split_on ''</new>'' (render_pairs ns @ ''</new>'' @ rest) = Some (render_pairs ns, rest)"
    using split_on_render_pairs [OF assms markers(2), of "''</new>'' @ rest"] by simp
qed

lemma envelope_old:
  assumes "list_all wf_pair ns" "list_all wf_pair os"
  shows "split_on ''<old>'' (''<new>'' @ render_pairs ns @ ''</new>'' @ ''<old>'' @ render_pairs os @ ''</old>'')
           = Some (''<new>'' @ render_pairs ns @ ''</new>'', render_pairs os @ ''</old>'')"
    and "split_on ''</old>'' (render_pairs os @ ''</old>'') = Some (render_pairs os, [])"
proof -
  have "split_on ''<old>'' (render_pairs ns @ ''</new>'' @ ''<old>'' @ render_pairs os @ ''</old>'')
          = Some (render_pairs ns @ ''</new>'', render_pairs os @ ''</old>'')"
    using split_on_render_pairs [OF assms(1) markers(3),
        of "''</new>'' @ ''<old>'' @ render_pairs os @ ''</old>''"]
    by simp
  then show "split_on ''<old>'' (''<new>'' @ render_pairs ns @ ''</new>'' @ ''<old>'' @ render_pairs os @ ''</old>'')
           = Some (''<new>'' @ render_pairs ns @ ''</new>'', render_pairs os @ ''</old>'')"
    by simp
  show "split_on ''</old>'' (render_pairs os @ ''</old>'') = Some (render_pairs os, [])"
    using split_on_render_pairs [OF assms(2) markers(4), of "''</old>''"] by simp
qed

text \<open>
  Claim C10, as the code has it. Take a document that is a sequence of well-formed pairs
  with distinct tags, none of them \<open>__proto__\<close>, and with ASCII values. The decoded
  object has exactly one entry \<open>tag \<mapsto> trimmed value\<close> for each pair whose trimmed
  value is not empty, and no other entry; a pair whose value is empty or blank leaves
  none. Its keys come in document order unless a tag is an array index. A document
  \<^verbatim>\<open><new>...</new><old>...</old>\<close> decodes in the same way to the entries of the pairs
  under \<^verbatim>\<open><new>\<close> and the entries of the pairs under \<^verbatim>\<open><old>\<close> with \<open>old_\<close> put
  before each key, those of \<^verbatim>\<open><new>\<close> first.
\<close>

theorem xml_decoding:
  "(list_all wf_pair ps \<and> distinct (map fst ps) \<longrightarrow>
      map_of (parseXMLToObject (render_pairs ps)) = map_of (entries [] ps)
      \<and> (\<not> list_ex is_index (map fst ps) \<longrightarrow>
           parseXMLToObject (render_pairs ps) = entries [] ps))
   \<and> (list_all wf_pair ns \<and> list_all wf_pair os
        \<and> distinct (map fst ns @ map (\<lambda>p. ''old_'' @ fst p) os) \<longrightarrow>
      map_of (parseXMLToObject
                (''<new>'' @ render_pairs ns @ ''</new>'' @ ''<old>'' @ render_pairs os @ ''</old>''))
        = map_of (entries [] ns @ entries ''old_'' os)
      \<and> (\<not> list_ex is_index (map fst ns) \<longrightarrow>
           parseXMLToObject
             (''<new>'' @ render_pairs ns @ ''</new>'' @ ''<old>'' @ render_pairs os @ ''</old>'')
             = entries [] ns @ entries ''old_'' os))"
proof (intro conjI impI)
  assume a: "list_all wf_pair ps \<and> distinct (map fst ps)"
  then have wf: "list_all wf_pair ps" and d: "distinct (map fst ps)" by simp_all
  have flat: "\<not> js_includes (render_pairs ps) ''<new>''"
    using no_marker_in_pairs [OF wf markers(1)] by simp
  have p: "parseXMLToObject (render_pairs ps) = assign_tags [] ps []"
    using flat by (simp add: parseXMLToObject_def scan_tags_render [OF wf])
  have "map_of (assign_tags [] ps []) = map_of [] ++ map_of (entries [] ps)"
    by (rule map_of_assign_tags) (use d wf_not_proto [OF wf] in simp_all)
  then show "map_of (parseXMLToObject (render_pairs ps)) = map_of (entries [] ps)"
    unfolding p by simp
  assume ni: "\<not> list_ex is_index (map fst ps)"
  have "assign_tags [] ps [] = [] @ entries [] ps"
    by (rule assign_tags_entries) (use d wf_plain [OF wf ni] in simp_all)
  then show "parseXMLToObject (render_pairs ps) = entries [] ps"
    unfolding p by simp
next
  let ?x = "''<new>'' @ render_pairs ns @ ''</new>'' @ ''<old>'' @ render_pairs os @ ''</old>''"
  assume a: "list_all wf_pair ns \<and> list_all wf_pair os
        \<and> distinct (map fst ns @ map (\<lambda>p. ''old_'' @ fst p) os)"
  then have wn: "list_all wf_pair ns" and wo: "list_all wf_pair os"
    and d: "distinct (map fst ns @ map (\<lambda>p. ''old_'' @ fst p) os)" by simp_all
  note n = envelope_new [OF wn, of "''<old>'' @ render_pairs os @ ''</old>''"]
  note o = envelope_old [OF wn wo]
  have i: "js_includes ?x ''<new>''" "js_includes ?x ''<old>''"
    using n(1) o(1) by (simp_all add: js_includes_def del: split_on.simps)
  have bn: "between ''<new>'' ''</new>'' ?x = Some (render_pairs ns)"
    using n by (simp add: between_def del: split_on.simps)
  have bo: "between ''<old>'' ''</old>'' ?x = Some (render_pairs os)"
    using o by (simp add: between_def del: split_on.simps)
  have p: "parseXMLToObject ?x = assign_tags ''old_'' os (assign_tags [] ns [])"
    unfolding parseXMLToObject_def
    using i bn bo
    by (simp add: scan_tags_render [OF wn] scan_tags_render [OF wo] del: split_on.simps)
  from d have dn: "distinct (map (\<lambda>p. [] @ fst p) ns)"
    and do: "distinct (map (\<lambda>p. ''old_'' @ fst p) os)"
    and dj: "fst ` set ns \<inter> (\<lambda>p. ''old_'' @ fst p) ` set os = {}"
    by auto
  have m1: "map_of (assign_tags [] ns []) = map_of [] ++ map_of (entries [] ns)"
    by (rule map_of_assign_tags [OF dn wf_not_proto [OF wn]])
  have m2: "map_of (assign_tags ''old_'' os (assign_tags [] ns []))
            = map_of (assign_tags [] ns []) ++ map_of (entries ''old_'' os)"
    by (rule map_of_assign_tags [OF do old_not_proto])
  have dj': "(\<lambda>p. [] @ fst p) ` set ns \<inter> (\<lambda>p. ''old_'' @ fst p) ` set os = {}"
    using dj by simp
  have "dom (map_of (entries [] ns)) \<inter> dom (map_of (entries ''old_'' os)) = {}"
    unfolding dom_map_of_conv_image_fst
    by (rule disjoint_subsets [OF dj' dom_entries dom_entries])
  then have c: "map_of (entries [] ns) ++ map_of (entries ''old_'' os)
                = map_of (entries ''old_'' os) ++ map_of (entries [] ns)"
    by (rule map_add_comm)
  show "map_of (parseXMLToObject ?x) = map_of (entries [] ns @ entries ''old_'' os)"
    unfolding p m2 m1 using c by simp
  assume ni: "\<not> list_ex is_index (map fst ns)"
  have e1: "assign_tags [] ns [] = [] @ entries [] ns"
    by (rule assign_tags_entries) (use d wf_plain [OF wn ni] in simp_all)
  have k: "map fst (entries [] ns) = map fst (filter (\<lambda>(t, v). trim v \<noteq> []) ns)"
    by (simp add: entries_def split_def comp_def)
  have "distinct (map fst (entries [] ns) @ map (\<lambda>p. ''old_'' @ fst p) os)"
    using d unfolding k by (auto simp: distinct_map_filter)
  then have e2: "assign_tags ''old_'' os (entries [] ns) = entries [] ns @ entries ''old_'' os"
    by (rule assign_tags_entries) (rule old_plain)
  show "parseXMLToObject ?x = entries [] ns @ entries ''old_'' os"
    unfolding p using e1 e2 by simp
qed

text \<open>
  The rows of the insert and the update scenarios: a value with blanks around it is
  trimmed, an empty one is dropped.
\<close>

theorem xml_decoding_witness:
  "parseXMLToObject ''<InvoiceNo>7</InvoiceNo><StockId> S1 </StockId><Note></Note><Qty>2</Qty>''
     = [(''InvoiceNo'', JStr ''7''), (''StockId'', JStr ''S1''), (''Qty'', JStr ''2'')]
   \<and> parseXMLToObject
       ''<new><ItemCode>M1</ItemCode><Description1>b</Description1></new><old><ItemCode>M1</ItemCode></old>''
     = [(''ItemCode'', JStr ''M1''), (''Description1'', JStr ''b''), (''old_ItemCode'', JStr ''M1'')]"
  using xml_decoding [of
      "[(''InvoiceNo'', ''7''), (''StockId'', '' S1 ''), (''Note'', []), (''Qty'', ''2'')]"
      "[(''ItemCode'', ''M1''), (''Description1'', ''b'')]"
      "[(''ItemCode'', ''M1'')]"]
  by (simp add: wf_pair_def wf_tag_def ascii_def is_index_def is_digit_def render_pairs_def
      render_pair_def entries_def trim_def is_space_def)

text \<open>
  The claim as the spec words it has an entry for each tag pair of the input. A pair with
  an empty value leaves none, and neither does a pair under the tag \<open>__proto__\<close>.
\<close>

theorem xml_missing_entry_counterexample:
  "parseXMLToObject ''<a></a><b>1</b>'' = [(''b'', JStr ''1'')]
   \<and> \<not> has_key ''a'' (parseXMLToObject ''<a></a><b>1</b>'')
   \<and> parseXMLToObject ''<__proto__>x</__proto__><b>1</b>'' = [(''b'', JStr ''1'')]"
  by code_simp

text \<open>
  A tag that is an array index has its entry, but before the entries of the tags that
  came first.
\<close>

lemma xml_index_tag:
  "parseXMLToObject ''<b>1</b><7>x</7><10>y</10><2>z</2>''
     = [(''2'', JStr ''z''), (''7'', JStr ''x''), (''10'', JStr ''y''), (''b'', JStr ''1'')]"
  by code_simp

section \<open>The dispatcher against the primary-key policy\<close>

lemma get_absent: "\<not> has_key k p \<Longrightarrow> get p k = JUndefined"
  by (simp add: has_key_def get_def)

lemma truthy_has_key: "truthy (get p k) \<Longrightarrow> has_key k p"
  by (cases "has_key k p") (simp_all add: get_absent)

lemma old_or_new_pre_image:
  assumes "has_key (''old_'' @ c) p \<longrightarrow> truthy (get p (''old_'' @ c))"
  shows "old_or_new p c = pre_image p c"
  using assms by (auto simp: old_or_new_def pre_image_def js_or_def get_absent)

lemma id_guard:
  assumes "has_key ''id'' p \<longrightarrow> has_key ''old_id'' p \<or> truthy (get p ''id'')"
    and "has_key ''old_id'' p \<longrightarrow> truthy (get p ''old_id'')"
  shows "truthy (js_or (get p ''id'') (get p ''old_id'')) \<longleftrightarrow> \<not> missing_both p ''id''"
  using assms by (auto simp: js_or_def missing_both_def get_absent dest: truthy_has_key)

lemma id_missing:
  "missing_both p ''id'' \<Longrightarrow> \<not> truthy (js_or (get p ''id'') (get p ''old_id''))"
  by (simp add: js_or_def missing_both_def get_absent)

lemma pk_policy_other:
  "\<not> named_table t \<Longrightarrow> pk_policy t bt =
     (if bt = Some ''retail'' \<or> bt = Some ''hospitality'' then Some [''id''] else None)"
  by (simp add: named_table_def pk_policy_def)

lemma pk_policy_named:
  "pk_policy ''Sales'' bt = (if bt = Some ''retail'' then Some [''InvoiceNo'']
      else if bt = Some ''hospitality'' then Some [''OrderNo''] else None)"
  "pk_policy ''SalesDetail'' bt = (if bt = Some ''retail'' then Some [''InvoiceNo'', ''StockId'']
      else if bt = Some ''hospitality'' then Some [''OrderNo'', ''ItemCode''] else None)"
  "pk_policy ''StockItems'' bt = (if bt = Some ''retail'' then Some [''StockId''] else None)"
  "pk_policy ''MenuItem'' bt = (if bt = Some ''hospitality'' then Some [''ItemCode''] else None)"
  "pk_policy ''SubMenuLinkDetail'' bt = (if bt = Some ''hospitality'' then Some [''ItemCode''] else None)"
  "pk_policy ''PaymentReceived'' bt = (if bt = Some ''retail'' then Some [''InvoiceNo'', ''Id'']
      else if bt = Some ''hospitality'' then Some [''OrderNo'', ''Id''] else None)"
  "pk_policy ''Payment'' bt = (if bt = Some ''retail'' \<or> bt = Some ''hospitality''
      then Some [''Payment''] else None)"
  by (simp_all add: pk_policy_def)

lemma policy_cases:
  assumes "pk_policy t bt = Some cols"
  obtains
    (sales_r) "bt = Some ''retail''" "t = ''Sales''" "cols = [''InvoiceNo'']"
  | (detail_r) "bt = Some ''retail''" "t = ''SalesDetail''" "cols = [''InvoiceNo'', ''StockId'']"
  | (stock_r) "bt = Some ''retail''" "t = ''StockItems''" "cols = [''StockId'']"
  | (recv_r) "bt = Some ''retail''" "t = ''PaymentReceived''" "cols = [''InvoiceNo'', ''Id'']"
  | (sales_h) "bt = Some ''hospitality''" "t = ''Sales''" "cols = [''OrderNo'']"
  | (detail_h) "bt = Some ''hospitality''" "t = ''SalesDetail''" "cols = [''OrderNo'', ''ItemCode'']"
  | (menu_h) "bt = Some ''hospitality''" "t = ''MenuItem''" "cols = [''ItemCode'']"
  | (sub_h) "bt = Some ''hospitality''" "t = ''SubMenuLinkDetail''" "cols = [''ItemCode'']"
  | (recv_h) "bt = Some ''hospitality''" "t = ''PaymentReceived''" "cols = [''OrderNo'', ''Id'']"
  | (pay) "bt = Some ''retail'' \<or> bt = Some ''hospitality''" "t = ''Payment''" "cols = [''Payment'']"
  | (other) "bt = Some ''retail'' \<or> bt = Some ''hospitality''" "\<not> named_table t" "cols = [''id'']"
proof (cases "named_table t")
  case False
  with assms have a: "bt = Some ''retail'' \<or> bt = Some ''hospitality''" and b: "cols = [''id'']"
    by (auto simp: pk_policy_other split: if_splits)
  show thesis by (rule other [OF a False b])
next
  case True
  then consider "t = ''Sales''" | "t = ''SalesDetail''" | "t = ''StockItems''" | "t = ''MenuItem''"
    | "t = ''SubMenuLinkDetail''" | "t = ''PaymentReceived''" | "t = ''Payment''"
    unfolding named_table_def by (elim disjE) simp_all
  then show thesis
  proof cases
    case 1 with assms show thesis
      by (auto simp: pk_policy_named split: if_splits intro: sales_r sales_h)
  next
    case 2 with assms show thesis
      by (auto simp: pk_policy_named split: if_splits intro: detail_r detail_h)
  next
    case 3 with assms show thesis
      by (auto simp: pk_policy_named split: if_splits intro: stock_r)
  next
    case 4 with assms show thesis
      by (auto simp: pk_policy_named split: if_splits intro: menu_h)
  next
    case 5 with assms show thesis
      by (auto simp: pk_policy_named split: if_splits intro: sub_h)
  next
    case 6 with assms show thesis
      by (auto simp: pk_policy_named split: if_splits intro: recv_r recv_h)
  next
    case 7 with assms show thesis
      by (auto simp: pk_policy_named split: if_splits intro: pay)
  qed
qed

lemma update_where_other:
  "\<not> named_table t \<Longrightarrow> update_where t bt p =
     (if truthy (js_or (get p ''id'') (get p ''old_id'')) then
           Inr ([''id''], [old_or_new p ''id''])
         else Inl (''No primary key found for UPDATE operation on '' @ t))"
  by (simp add: named_table_def update_where_def)

lemma delete_where_other:
  "\<not> named_table t \<Longrightarrow> delete_where t bt p =
     (if has_key ''id'' p then Inr ([''id''], [get p ''id''])
         else Inl (''No primary key found for DELETE operation on '' @ t))"
  by (simp add: named_table_def delete_where_def)

lemma update_where_policy:
  assumes pol: "pk_policy tableName businessType = Some cols"
    and tr: "pre_image_truthy p cols"
    and idg: "\<not> named_table tableName \<longrightarrow> has_key ''id'' p \<longrightarrow>
               has_key ''old_id'' p \<or> truthy (get p ''id'')"
  shows "(list_ex (missing_both p) cols \<longrightarrow> isl (update_where tableName businessType p))
       \<and> (\<not> list_ex (missing_both p) cols \<longrightarrow>
            update_where tableName businessType p = Inr (cols, map (pre_image p) cols))"
  using pol
proof (cases rule: policy_cases)
  case other
  with tr idg show ?thesis
    by (simp add: update_where_other pre_image_truthy_def old_or_new_pre_image id_guard)
next
  case pay
  with tr show ?thesis
    by (simp add: update_where_def pre_image_truthy_def old_or_new_pre_image)
qed (use tr in \<open>simp_all add: update_where_def pre_image_truthy_def old_or_new_pre_image\<close>)

text \<open>Without any assumption on the values: the columns, and the rejection.\<close>

lemma update_where_columns:
  assumes pol: "pk_policy tableName businessType = Some cols"
  shows "(list_ex (missing_both p) cols \<longrightarrow> isl (update_where tableName businessType p))
       \<and> (\<forall>fs vs. update_where tableName businessType p = Inr (fs, vs) \<longrightarrow>
             fs = cols \<and> length vs = length cols)"
  using pol
proof (cases rule: policy_cases)
  case other
  then show ?thesis
    by (simp add: update_where_other id_missing)
next
  case pay
  then show ?thesis
    by (simp add: update_where_def)
qed (simp_all add: update_where_def)

lemma delete_where_policy:
  assumes pol: "pk_policy tableName businessType = Some cols"
    and t: "tableName \<noteq> ''SubMenuLinkDetail''"
  shows "(list_ex (\<lambda>c. \<not> has_key c p) cols \<longrightarrow> isl (delete_where tableName businessType p))
       \<and> (\<not> list_ex (\<lambda>c. \<not> has_key c p) cols \<longrightarrow>
            delete_where tableName businessType p = Inr (cols, map (get p) cols))"
  using pol
proof (cases rule: policy_cases)
  case other
  then show ?thesis
    by (simp add: delete_where_other)
next
  case pay
  then show ?thesis
    by (simp add: delete_where_def)
next
  case sub_h
  with t show ?thesis by simp
qed (simp_all add: delete_where_def)

lemma join_eq_Nil:
  "(\<And>x. x \<in> set xs \<Longrightarrow> x \<noteq> []) \<Longrightarrow> join sep xs = [] \<longleftrightarrow> xs = []"
  by (induction sep xs rule: join.induct) auto

lemma set_clause_eq_Nil:
  "join '', '' (map (\<lambda>key. quoted key @ '' = ?'') ks) = [] \<longleftrightarrow> ks = []"
  using join_eq_Nil [of "map (\<lambda>key. quoted key @ '' = ?'') ks" "'', ''"]
  by (auto simp: quoted_def)

text \<open>
  Where the claim holds. Take an UPDATE on a table and business type for which the
  policy lists key columns, and a payload in which no key column has a falsy pre-image
  (and, for a table the dispatcher does not name, in which an \<open>id\<close> that comes without
  an \<open>old_id\<close> is truthy, since that branch tests the values and not the keys). The
  operation is rejected when a key column is absent in both forms; otherwise it is
  rejected with "No fields to update" when every payload key has the prefix \<open>old_\<close>,
  and else the statement is \<^verbatim>\<open>UPDATE <table> SET `k` = ?, ... WHERE `c` = ? AND ...\<close>
  over the payload keys without that prefix, in payload order, and the key columns of
  the policy, binding the values of the SET keys and then, for each key column, the
  value under \<open>old_<col>\<close> when the payload has that key and the value under \<open><col>\<close>
  otherwise.
\<close>

lemma update_statement:
  assumes op: "toUpperCase operation = ''UPDATE''"
    and pol: "pk_policy tableName businessType = Some cols"
    and tr: "pre_image_truthy p cols"
    and idg: "\<not> named_table tableName \<longrightarrow> has_key ''id'' p \<longrightarrow>
               has_key ''old_id'' p \<or> truthy (get p ''id'')"
  shows "(list_ex (missing_both p) cols \<longrightarrow>
            isl (build_statement tableName operation p businessType))
       \<and> (\<not> list_ex (missing_both p) cols \<longrightarrow>
            build_statement tableName operation p businessType =
              (let setKeys = filter (\<lambda>key. \<not> startsWith ''old_'' key) (keys p)
               in if setKeys = [] then Inl ''No fields to update''
                  else Inr \<lparr>sql = ''UPDATE '' @ tableName @ '' SET ''
                              @ join '', '' (map (\<lambda>key. quoted key @ '' = ?'') setKeys)
                              @ '' WHERE '' @ where_clause cols,
                            params = map (get p) setKeys @ map (pre_image p) cols\<rparr>))"
proof -
  have b: "build_statement tableName operation p businessType = build_update tableName businessType p"
    using op by (simp add: build_statement_def)
  have ne: "cols \<noteq> []"
    using pol by (cases rule: policy_cases) simp_all
  note w = update_where_policy [OF pol tr idg]
  show ?thesis
  proof (cases "list_ex (missing_both p) cols")
    case True
    with w have "isl (update_where tableName businessType p)" by simp
    then obtain e where "update_where tableName businessType p = Inl e"
      by (cases "update_where tableName businessType p") simp_all
    with True show ?thesis by (simp add: b build_update_def)
  next
    case False
    with w have "update_where tableName businessType p = Inr (cols, map (pre_image p) cols)"
      by simp
    with False ne show ?thesis
      by (simp add: b build_update_def Let_def set_clause_eq_Nil)
  qed
qed

text \<open>
  The update scenario with a changed key (\<open>M0\<close> renamed to \<open>M1\<close>), a payload without
  the key column, and a row whose key is \<open>0\<close> and does not change.
\<close>

lemma update_statement_examples:
  "build_statement ''MenuItem'' ''update''
       [(''ItemCode'', JStr ''M1''), (''Description1'', JStr ''b''), (''old_ItemCode'', JStr ''M0'')]
       (Some ''hospitality'')
     = Inr \<lparr>sql = ''UPDATE MenuItem SET `ItemCode` = ?, `Description1` = ? WHERE `ItemCode` = ?'',
            params = [JStr ''M1'', JStr ''b'', JStr ''M0'']\<rparr>
   \<and> isl (build_statement ''MenuItem'' ''update'' [(''Description1'', JStr ''b'')]
            (Some ''hospitality''))
   \<and> build_statement ''Sales'' ''update'' [(''InvoiceNo'', JNum 0), (''Total'', JNum 1)]
         (Some ''retail'')
       = Inr \<lparr>sql = ''UPDATE Sales SET `InvoiceNo` = ?, `Total` = ? WHERE `InvoiceNo` = ?'',
              params = [JNum 0, JNum 1, JNum 0]\<rparr>"
  using update_statement [of "''update''" "''MenuItem''" "Some ''hospitality''" "[''ItemCode'']"
      "[(''ItemCode'', JStr ''M1''), (''Description1'', JStr ''b''), (''old_ItemCode'', JStr ''M0'')]"]
    update_statement [of "''update''" "''MenuItem''" "Some ''hospitality''" "[''ItemCode'']"
      "[(''Description1'', JStr ''b'')]"]
    update_statement [of "''update''" "''Sales''" "Some ''retail''" "[''InvoiceNo'']"
      "[(''InvoiceNo'', JNum 0), (''Total'', JNum 1)]"]
  by (simp add: toUpperCase_def upper_char_def pk_policy_named pre_image_truthy_def
      named_table_def
      has_key_def get_def missing_both_def keys_def pre_image_def where_clause_def quoted_def)

text \<open>
  Claim C2. For an UPDATE on a table with a primary-key policy the WHERE value of a key
  column is to come from \<open>old_<col>\<close> whenever the payload has that key, and from
  \<open><col>\<close> otherwise. The dispatcher tests the presence of the keys with \<open>in\<close> and then
  picks the value with \<open>old_<col> || <col>\<close>, which passes over a pre-image that is
  present but falsy. Here an invoice is renumbered from \<open>0\<close> to \<open>7\<close>: the payload has
  \<open>old_InvoiceNo\<close> with the value \<open>0\<close>, the statement is built, and its WHERE clause is
  bound to the new number \<open>7\<close>, not to the pre-image \<open>0\<close> that the claim (and
  \<open>pre_image\<close>) names.
\<close>

theorem update_binds_new_key_for_falsy_pre_image:
  "build_statement ''Sales'' ''UPDATE''
       [(''old_InvoiceNo'', JNum 0), (''InvoiceNo'', JNum 7), (''Total'', JNum 1)]
       (Some ''retail'')
     = Inr \<lparr>sql = ''UPDATE Sales SET `InvoiceNo` = ?, `Total` = ? WHERE `InvoiceNo` = ?'',
            params = [JNum 7, JNum 1, JNum 7]\<rparr>
   \<and> pk_policy ''Sales'' (Some ''retail'') = Some [''InvoiceNo'']
   \<and> has_key ''old_InvoiceNo''
        [(''old_InvoiceNo'', JNum 0), (''InvoiceNo'', JNum 7), (''Total'', JNum 1)]
   \<and> pre_image [(''old_InvoiceNo'', JNum 0), (''InvoiceNo'', JNum 7), (''Total'', JNum 1)]
        ''InvoiceNo'' = JNum 0"
  by (simp add: build_statement_def toUpperCase_def upper_char_def
      build_update_def update_where_def missing_both_def old_or_new_def js_or_def
      has_key_def get_def keys_def where_clause_def quoted_def pk_policy_def pre_image_def)

section \<open>The WHERE columns on every path\<close>

lemma fold_assign_fresh:
  assumes "distinct fs" "set fs \<inter> fst ` set acc = {}" "list_all plain_key fs"
  shows "fold (\<lambda>f acc. if P f then assign f (g f) acc else acc) fs acc
         = acc @ map (\<lambda>f. (f, g f)) (filter P fs)"
  using assms
proof (induction fs arbitrary: acc)
  case Nil
  then show ?case by simp
next
  case (Cons f fs)
  show ?case
  proof (cases "P f")
    case True
    from Cons.prems have fresh: "f \<notin> fst ` set acc" and plain: "plain_key f" by auto
    then have a: "assign f (g f) acc = acc @ [(f, g f)]"
      by (simp add: assign_plain update_fresh)
    from Cons.prems have "distinct fs" "set fs \<inter> fst ` set (acc @ [(f, g f)]) = {}"
      "list_all plain_key fs"
      by auto
    from Cons.IH [OF this] True a show ?thesis by simp
  next
    case False
    from Cons.prems have "distinct fs" "set fs \<inter> fst ` set acc = {}" "list_all plain_key fs"
      by auto
    from Cons.IH [OF this] False show ?thesis by simp
  qed
qed

lemma distinct_getWhereFields: "distinct (getWhereFields t)"
  by (simp add: getWhereFields_def)

lemma plain_getWhereFields: "list_all plain_key (getWhereFields t)"
  by (simp add: getWhereFields_def plain_key_def is_index_def is_digit_def)

lemma plain_ID: "plain_key ''ID''"
  by (simp add: plain_key_def is_index_def is_digit_def)

lemma legacy_where_keys:
  "keys (buildWhereCondition tableName d isOld) =
     (let src = source_data d isOld;
          found = filter (\<lambda>f. defined (get src f)) (getWhereFields tableName)
      in if found = [] then (if get src ''ID'' \<noteq> JUndefined then [''ID''] else [])
         else found)"
proof -
  let ?src = "source_data d isOld"
  have "fold (\<lambda>f acc. if defined (get ?src f) then assign f (get ?src f) acc else acc)
          (getWhereFields tableName) []
        = [] @ map (\<lambda>f. (f, get ?src f)) (filter (\<lambda>f. defined (get ?src f)) (getWhereFields tableName))"
    by (rule fold_assign_fresh) (simp_all add: distinct_getWhereFields plain_getWhereFields)
  then show ?thesis
    by (simp add: buildWhereCondition_def Let_def keys_def comp_def assign_plain [OF plain_ID])
qed

text \<open>
  Claim C3, as the code has it. On the path of \<open>executeAdvancedSyncOperation\<close>, for a
  table and business type with key columns in the policy table: an UPDATE that yields a
  statement has exactly those columns in its WHERE clause, in the table's order, and is
  rejected when one of them is absent in both forms; a DELETE on any such table but
  \<open>SubMenuLinkDetail\<close> is rejected when the payload lacks one of them and otherwise is
  \<^verbatim>\<open>DELETE FROM <table> WHERE `c` = ? AND ...\<close> over exactly those columns with the
  payload's values. The sync service's own path does not use this table: its WHERE columns
  are those of \<open>getWhereFields\<close> for which the source row has a value that is neither
  \<open>undefined\<close> nor \<open>null\<close>, and \<open>ID\<close> alone when there is none of them and the
  row has an \<open>ID\<close>.
\<close>

theorem where_columns_policy:
  assumes pol: "pk_policy tableName businessType = Some cols"
  shows "(\<forall>st. build_statement tableName ''UPDATE'' p businessType = Inr st \<longrightarrow>
            sql st = ''UPDATE '' @ tableName @ '' SET ''
                       @ join '', '' (map (\<lambda>key. quoted key @ '' = ?'')
                                       (filter (\<lambda>key. \<not> startsWith ''old_'' key) (keys p)))
                       @ '' WHERE '' @ where_clause cols
            \<and> length (params st)
                = length (filter (\<lambda>key. \<not> startsWith ''old_'' key) (keys p)) + length cols)
       \<and> (list_ex (missing_both p) cols \<longrightarrow>
            isl (build_statement tableName ''UPDATE'' p businessType))
       \<and> (tableName \<noteq> ''SubMenuLinkDetail'' \<longrightarrow>
            (list_ex (\<lambda>c. \<not> has_key c p) cols \<longrightarrow>
               isl (build_statement tableName ''DELETE'' p businessType))
            \<and> (\<not> list_ex (\<lambda>c. \<not> has_key c p) cols \<longrightarrow>
               build_statement tableName ''DELETE'' p businessType =
                 Inr \<lparr>sql = ''DELETE FROM '' @ tableName @ '' WHERE '' @ where_clause cols,
                      params = map (get p) cols\<rparr>))
       \<and> keys (buildWhereCondition tableName d isOld) =
           (let src = source_data d isOld;
                found = filter (\<lambda>f. defined (get src f)) (getWhereFields tableName)
            in if found = [] then (if get src ''ID'' \<noteq> JUndefined then [''ID''] else [])
               else found)"
proof -
  have ne: "cols \<noteq> []"
    using pol by (cases rule: policy_cases) simp_all
  have bu: "build_statement tableName ''UPDATE'' p businessType = build_update tableName businessType p"
    by (simp add: build_statement_def toUpperCase_def upper_char_def)
  have bd: "build_statement tableName ''DELETE'' p businessType = build_delete tableName businessType p"
    by (simp add: build_statement_def toUpperCase_def upper_char_def)
  note u = update_where_columns [OF pol, of p]
  have u1: "\<forall>st. build_update tableName businessType p = Inr st \<longrightarrow>
            sql st = ''UPDATE '' @ tableName @ '' SET ''
                       @ join '', '' (map (\<lambda>key. quoted key @ '' = ?'')
                                       (filter (\<lambda>key. \<not> startsWith ''old_'' key) (keys p)))
                       @ '' WHERE '' @ where_clause cols
            \<and> length (params st)
                = length (filter (\<lambda>key. \<not> startsWith ''old_'' key) (keys p)) + length cols"
  proof (cases "update_where tableName businessType p")
    case (Inl e)
    then show ?thesis by (simp add: build_update_def)
  next
    case (Inr w)
    obtain fs vs where w: "w = (fs, vs)" by (cases w)
    with Inr u have "fs = cols" "length vs = length cols" by simp_all
    with Inr w show ?thesis
      by (auto simp: build_update_def Let_def split: if_splits)
  qed
  have u2: "list_ex (missing_both p) cols \<longrightarrow> isl (build_update tableName businessType p)"
  proof
    assume "list_ex (missing_both p) cols"
    with u have "isl (update_where tableName businessType p)" by simp
    then obtain e where "update_where tableName businessType p = Inl e"
      by (cases "update_where tableName businessType p") simp_all
    then show "isl (build_update tableName businessType p)" by (simp add: build_update_def)
  qed
  have dl: "tableName \<noteq> ''SubMenuLinkDetail'' \<longrightarrow>
            (list_ex (\<lambda>c. \<not> has_key c p) cols \<longrightarrow> isl (build_delete tableName businessType p))
            \<and> (\<not> list_ex (\<lambda>c. \<not> has_key c p) cols \<longrightarrow>
               build_delete tableName businessType p =
                 Inr \<lparr>sql = ''DELETE FROM '' @ tableName @ '' WHERE '' @ where_clause cols,
                      params = map (get p) cols\<rparr>)"
  proof
    assume t: "tableName \<noteq> ''SubMenuLinkDetail''"
    note w = delete_where_policy [OF pol t, of p]
    show "(list_ex (\<lambda>c. \<not> has_key c p) cols \<longrightarrow> isl (build_delete tableName businessType p))
            \<and> (\<not> list_ex (\<lambda>c. \<not> has_key c p) cols \<longrightarrow>
               build_delete tableName businessType p =
                 Inr \<lparr>sql = ''DELETE FROM '' @ tableName @ '' WHERE '' @ where_clause cols,
                      params = map (get p) cols\<rparr>)"
    proof (cases "list_ex (\<lambda>c. \<not> has_key c p) cols")
      case True
      with w have "isl (delete_where tableName businessType p)" by simp
      then obtain e where "delete_where tableName businessType p = Inl e"
        by (cases "delete_where tableName businessType p") simp_all
      with True show ?thesis by (simp add: build_delete_def)
    next
      case False
      with w have "delete_where tableName businessType p = Inr (cols, map (get p) cols)" by simp
      with False ne show ?thesis by (simp add: build_delete_def)
    qed
  qed
  from u1 u2 dl legacy_where_keys [of tableName d isOld] show ?thesis
    unfolding bu bd by (intro conjI)
qed

text \<open>
  A retail \<open>SalesDetail\<close> row on the dispatcher's path, and a \<open>MenuItem\<close> row on
  the sync service's path.
\<close>

theorem where_columns_policy_witness:
  "build_statement ''SalesDetail'' ''UPDATE''
       [(''InvoiceNo'', JNum 7), (''StockId'', JStr ''S1''), (''Qty'', JNum 2)] (Some ''retail'')
     = Inr \<lparr>sql = ''UPDATE SalesDetail SET `InvoiceNo` = ?, `StockId` = ?, `Qty` = ? WHERE `InvoiceNo` = ? AND `StockId` = ?'',
            params = [JNum 7, JStr ''S1'', JNum 2, JNum 7, JStr ''S1'']\<rparr>
   \<and> build_statement ''SalesDetail'' ''DELETE''
       [(''InvoiceNo'', JNum 7), (''StockId'', JStr ''S1''), (''Qty'', JNum 2)] (Some ''retail'')
     = Inr \<lparr>sql = ''DELETE FROM SalesDetail WHERE `InvoiceNo` = ? AND `StockId` = ?'',
            params = [JNum 7, JStr ''S1'']\<rparr>
   \<and> isl (build_statement ''SalesDetail'' ''DELETE'' [(''InvoiceNo'', JNum 7)] (Some ''retail''))
   \<and> keys (buildWhereCondition ''MenuItem''
         \<lparr>own = [(''ItemCode'', JStr ''M1''), (''Category'', JStr ''c'')],
          new_part = None, old_part = None\<rparr> False) = [''ItemCode'']"
proof -
  let ?p = "[(''InvoiceNo'', JNum 7), (''StockId'', JStr ''S1''), (''Qty'', JNum 2)]"
  let ?d = "\<lparr>own = [(''ItemCode'', JStr ''M1''), (''Category'', JStr ''c'')],
          new_part = None, old_part = None\<rparr>"
  have pol: "pk_policy ''SalesDetail'' (Some ''retail'') = Some [''InvoiceNo'', ''StockId'']"
    by (simp add: pk_policy_named)
  have pol2: "pk_policy ''MenuItem'' (Some ''hospitality'') = Some [''ItemCode'']"
    by (simp add: pk_policy_named)
  have u: "build_statement ''SalesDetail'' ''UPDATE'' ?p (Some ''retail'')
     = Inr \<lparr>sql = ''UPDATE SalesDetail SET `InvoiceNo` = ?, `StockId` = ?, `Qty` = ? WHERE `InvoiceNo` = ? AND `StockId` = ?'',
            params = [JNum 7, JStr ''S1'', JNum 2, JNum 7, JStr ''S1'']\<rparr>"
    by (simp add: build_statement_def toUpperCase_def upper_char_def
      build_update_def update_where_def missing_both_def old_or_new_def js_or_def
      has_key_def get_def keys_def where_clause_def quoted_def)
  from where_columns_policy [OF pol, of ?p ?d False]
  have d1: "build_statement ''SalesDetail'' ''DELETE'' ?p (Some ''retail'')
     = Inr \<lparr>sql = ''DELETE FROM SalesDetail WHERE `InvoiceNo` = ? AND `StockId` = ?'',
            params = [JNum 7, JStr ''S1'']\<rparr>"
    by (simp add: has_key_def get_def where_clause_def quoted_def)
  from where_columns_policy [OF pol, of "[(''InvoiceNo'', JNum 7)]" ?d False]
  have d2: "isl (build_statement ''SalesDetail'' ''DELETE'' [(''InvoiceNo'', JNum 7)] (Some ''retail''))"
    by (simp add: has_key_def)
  from where_columns_policy [OF pol2, of ?p ?d False]
  have l: "keys (buildWhereCondition ''MenuItem'' ?d False) = [''ItemCode'']"
    by (simp add: source_data_def getWhereFields_def defined_def get_def)
  from u d1 d2 l show ?thesis by simp
qed

text \<open>
  The claim as the spec words it holds the policy table on every dispatch path. The sync
  service deletes a \<open>Sales\<close> row under \<open>InvoiceNo\<close> and \<open>TransactionDate\<close>, where
  the policy has \<open>InvoiceNo\<close> for retail and \<open>OrderNo\<close> for hospitality.
\<close>

theorem legacy_where_fields_counterexample:
  "handleDelete_statement True ''Sales''
       \<lparr>own = [(''InvoiceNo'', JNum 7), (''TransactionDate'', JStr ''2024-01-01''), (''Total'', JNum 1)],
        new_part = None, old_part = None\<rparr>
     = Inr \<lparr>sql = nl @ indent 16 @ ''DELETE FROM `Sales`'' @ nl
                 @ indent 16 @ ''WHERE `InvoiceNo` = ? AND `TransactionDate` = ?'' @ nl @ indent 12,
            params = [JNum 7, JStr ''2024-01-01'']\<rparr>
   \<and> pk_policy ''Sales'' (Some ''retail'') = Some [''InvoiceNo'']
   \<and> pk_policy ''Sales'' (Some ''hospitality'') = Some [''OrderNo'']"
  by (simp add: handleDelete_statement_def buildWhereCondition_def getWhereFields_def
      source_data_def defined_def get_def assign_def is_index_def is_digit_def keys_def
      vals_def where_clause_def quoted_def pk_policy_named)

text \<open>
  Beside the claim: the dispatcher's DELETE has no branch for \<open>SubMenuLinkDetail\<close>, which
  its UPDATE has, so a DELETE there falls to the \<open>id\<close> fallback.
\<close>

lemma delete_SubMenuLinkDetail_falls_through:
  "build_statement ''SubMenuLinkDetail'' ''DELETE'' [(''ItemCode'', JStr ''M1'')] (Some ''hospitality'')
     = Inl ''No primary key found for DELETE operation on SubMenuLinkDetail''"
  by (simp add: build_statement_def toUpperCase_def upper_char_def build_delete_def
      delete_where_def has_key_def)

section \<open>INSERT on the two row paths\<close>




section \<open>The DDL translator on the ADD COLUMN scenario\<close>

text \<open>
  Claim C5. The specification has the command of its scenario E4 translated to
  \<^verbatim>\<open>ALTER TABLE `Sales` ADD COLUMN `Note` VARCHAR(50) ...\<close>, with every bracketed
  identifier, the table name included, rewritten to backticks. The \<open>DDL_ALTER_TABLE\<close>
  branch returns as soon as pattern 1 has rewritten the ADD clause, and no rewrite of that
  branch touches a bracketed name outside the ADD clause: the table name leaves the
  translator as \<^verbatim>\<open>[Sales]\<close>.
\<close>

theorem ddl_add_column_keeps_bracketed_table:
  "convertSqlServerDDLToMySQL ''ALTER TABLE [dbo].[Sales] Add [Note] [NVARCHAR](50) NULL''
       ''Sales'' ''DDL_ALTER_TABLE''
     = Some ''ALTER TABLE [Sales] ADD COLUMN `Note` VARCHAR(50) CHARACTER SET utf8mb4 COLLATE utf8mb4_0900_ai_ci NULL''"
  by code_simp

text \<open>
  The sibling branch for \<open>DDL_DROP_TABLE\<close> (and for any other operation) does rewrite
  the bracketed table name.
\<close>

lemma ddl_drop_table_rewrites_brackets:
  "convertSqlServerDDLToMySQL ''DROP TABLE [dbo].[Sales]'' ''Sales'' ''DDL_DROP_TABLE''
     = Some ''DROP TABLE `Sales`''"
  by code_simp

section \<open>Protected columns of the CSV import\<close>

lemma code_lines_protected:
  "isProtectedColumn tableCol \<Longrightarrow>
   code_lines (statement_lines tableCol v) =
     [quoted tableCol @ '' = CASE'']
     @ concat (map (branch_lines v) [NullBlank, SentinelDate, IsoDateTime, StdDateTime, DateOnly])
     @ [''ELSE TRIM('' @ v @ '')'', ''END'']"
  by (simp add: code_lines_def statement_lines_def branch_lines_def strip_def is_blank_def
      indent_def quoted_def sq_def numeral_eq_Suc)

lemma code_lines_unprotected:
  "\<not> isProtectedColumn tableCol \<Longrightarrow>
   code_lines (statement_lines tableCol v) =
     [quoted tableCol @ '' = CASE'']
     @ concat (map (branch_lines v)
         [NullBlank, BooleanWord, SentinelDate, IsoDateTime, StdDateTime, DateOnly,
          PureInteger, PureDecimal])
     @ [''ELSE TRIM('' @ v @ '')'', ''END'']"
  by (simp add: code_lines_def statement_lines_def branch_lines_def strip_def is_blank_def
      indent_def quoted_def sq_def numeral_eq_Suc boolean_insertion_def numeric_insertion_def)

lemma match_classes_nth:
  "match_classes Ps s \<Longrightarrow> i < length Ps \<Longrightarrow> i < length s \<and> (Ps ! i) (s ! i)"
proof (induction Ps s arbitrary: i rule: match_classes.induct)
  case (3 P Ps c cs)
  then show ?case by (cases i) auto
qed simp_all

lemma digit_not_dash: "is_digit c \<Longrightarrow> c \<noteq> CHR ''-''"
  by (auto simp: is_digit_def)

lemma digit_not_blank: "is_digit c \<Longrightarrow> \<not> is_blank c"
  by (auto simp: is_digit_def is_blank_def)

lemma digits_nth: "list_all is_digit s \<Longrightarrow> i < length s \<Longrightarrow> is_digit (s ! i)"
  by (simp add: list_all_length)

lemma digits_no_date:
  assumes "list_all is_digit s"
  shows "\<not> match_classes (date_classes @ Ps) s"
proof
  assume "match_classes (date_classes @ Ps) s"
  from match_classes_nth [OF this, of 4]
  have "4 < length s" "s ! 4 = CHR ''-''"
    by (simp_all add: date_classes_def nth_append)
  with digits_nth [OF assms, of 4] digit_not_dash show False by auto
qed

lemma startsWith_nth:
  "startsWith p s \<Longrightarrow> i < length p \<Longrightarrow> i < length s \<and> s ! i = p ! i"
proof (induction p s arbitrary: i rule: startsWith.induct)
  case (3 p ps c cs)
  then show ?case by (cases i) auto
qed simp_all

lemma digits_no_sentinel:
  assumes "list_all is_digit s"
  shows "\<not> branch_holds SentinelDate s"
proof -
  have a: "\<not> startsWith ''1899-12-30'' s"
  proof
    assume "startsWith ''1899-12-30'' s"
    from startsWith_nth [OF this, of 4] have "4 < length s" "s ! 4 = CHR ''-''" by simp_all
    with digits_nth [OF assms, of 4] digit_not_dash show False by auto
  qed
  have b: "s \<noteq> ''1900-01-01T00:00:00.000Z''" "s \<noteq> ''0000-00-00''"
    using assms by (auto simp: is_digit_def)
  from a b show ?thesis by simp
qed

lemma strip_digits:
  assumes "digits s"
  shows "strip s = s"
proof -
  from assms obtain c cs where s: "s = c # cs" and c: "is_digit c"
    by (cases s) (auto simp: digits_def)
  from assms have "is_digit (last s)"
    by (auto simp: digits_def list_all_iff)
  then have l: "\<not> is_blank (hd (rev s))"
    using assms by (simp add: digits_def hd_rev digit_not_blank)
  have "dropWhile is_blank s = s"
    using c by (simp add: s digit_not_blank)
  moreover have "dropWhile is_blank (rev s) = rev s"
    using l by (cases "rev s") (simp_all add: s)
  ultimately show ?thesis by (simp add: strip_def)
qed

lemma capitals_upper: "c \<in> set ''ABCDEFGHIJKLMNOPQRSTUVWXYZ'' \<Longrightarrow> is_upper c"
  unfolding set_simps insert_iff empty_iff
  by (elim disjE) (simp_all add: is_upper_def)

lemma lower_char_other: "\<not> is_upper c \<Longrightarrow> lower_char c = c"
proof -
  assume "\<not> is_upper c"
  then have "c \<notin> set ''ABCDEFGHIJKLMNOPQRSTUVWXYZ''"
    using capitals_upper by blast
  then have "map_of (zip ''ABCDEFGHIJKLMNOPQRSTUVWXYZ'' ''abcdefghijklmnopqrstuvwxyz'') c = None"
    by (subst map_of_zip_is_None) simp_all
  then show ?thesis by (simp only: lower_char_def option.case)
qed

lemma lower_char_digit: "is_digit c \<Longrightarrow> lower_char c = c"
  by (rule lower_char_other) (simp add: is_digit_def is_upper_def)

lemma digits_no_word:
  assumes "digits s"
  shows "\<not> branch_holds BooleanWord s"
proof -
  from assms have "map lower_char s = s"
    by (auto simp: digits_def list_all_iff lower_char_digit intro: map_idI)
  moreover from assms have "s \<notin> set [''true'', ''false'', ''yes'', ''no'', ''y'', ''n'', ''on'', ''off'']"
    by (auto simp: digits_def is_digit_def)
  ultimately show ?thesis using assms by (simp add: strip_digits)
qed

lemma digits_unsigned: "digits s \<Longrightarrow> unsigned_part s = s"
  by (cases s) (auto simp: digits_def unsigned_part_def dest: digit_not_dash)

lemma case_value_digits:
  assumes "digits s"
  shows "case_value [NullBlank, SentinelDate, IsoDateTime, StdDateTime, DateOnly] s = SqlText s"
    and "case_value [NullBlank, BooleanWord, SentinelDate, IsoDateTime, StdDateTime, DateOnly,
           PureInteger, PureDecimal] s = SqlInteger (number_of s)"
proof -
  from assms have d: "list_all is_digit s" and ne: "s \<noteq> []" by (simp_all add: digits_def)
  note no = digits_no_sentinel [OF d] digits_no_word [OF assms]
    digits_no_date [OF d, of "[\<lambda>c. c = CHR ''T''] @ time_classes"]
    digits_no_date [OF d, of "[\<lambda>c. c = CHR '' ''] @ time_classes"]
    digits_no_date [OF d, of "[]"]
  show "case_value [NullBlank, SentinelDate, IsoDateTime, StdDateTime, DateOnly] s = SqlText s"
    using no ne by (simp add: strip_digits [OF assms] del: branch_holds.simps(2,3))
  show "case_value [NullBlank, BooleanWord, SentinelDate, IsoDateTime, StdDateTime, DateOnly,
           PureInteger, PureDecimal] s = SqlInteger (number_of s)"
    using no ne assms
    by (simp add: strip_digits [OF assms] digits_unsigned [OF assms] del: branch_holds.simps(2,3))
qed

text \<open>
  Claim C9. For the columns \<open>StockId\<close> and \<open>ItemCode\<close> the code lines of the assignment
  are the \<open>CASE\<close> head, the lines of the null-or-blank, the sentinel-date and the three
  date clauses, the \<open>ELSE TRIM(...)\<close> and the \<open>END\<close>: the boolean-word clause and the two
  numeric casts are not written. For every other column all eight clauses are written,
  in their order. So a field that is a string of digits, leading zeros included, comes
  out as that very text under \<open>StockId\<close> and \<open>ItemCode\<close>, and as the number it denotes
  under any other column. \<open>buildColumnMappings\<close> writes one such assignment for each
  table column that has a CSV column at its index, over the variable of that CSV column.
\<close>

theorem protected_columns_skip_casts:
  "((tableCol = ''StockId'' \<or> tableCol = ''ItemCode'') \<longrightarrow>
        code_lines (statement_lines tableCol v) =
          [quoted tableCol @ '' = CASE'']
          @ concat (map (branch_lines v)
              [NullBlank, SentinelDate, IsoDateTime, StdDateTime, DateOnly])
          @ [''ELSE TRIM('' @ v @ '')'', ''END'']
        \<and> expression_branches tableCol
            = [NullBlank, SentinelDate, IsoDateTime, StdDateTime, DateOnly]
        \<and> (digits s \<longrightarrow> coerce (expression_branches tableCol) (Some s) = SqlText s))
   \<and> (tableCol \<noteq> ''StockId'' \<and> tableCol \<noteq> ''ItemCode'' \<longrightarrow>
        code_lines (statement_lines tableCol v) =
          [quoted tableCol @ '' = CASE'']
          @ concat (map (branch_lines v)
              [NullBlank, BooleanWord, SentinelDate, IsoDateTime, StdDateTime, DateOnly,
               PureInteger, PureDecimal])
          @ [''ELSE TRIM('' @ v @ '')'', ''END'']
        \<and> expression_branches tableCol
            = [NullBlank, BooleanWord, SentinelDate, IsoDateTime, StdDateTime, DateOnly,
               PureInteger, PureDecimal]
        \<and> (digits s \<longrightarrow>
             coerce (expression_branches tableCol) (Some s) = SqlInteger (number_of s)))
   \<and> setStatements (buildColumnMappings csvHeaders tableColumns)
       = map (\<lambda>(tableCol, csvCol). join nl (statement_lines tableCol (csv_variable csvCol)))
             (zip tableColumns csvHeaders)"
proof -
  have m: "setStatements (buildColumnMappings csvHeaders tableColumns)
       = map (\<lambda>(tableCol, csvCol). join nl (statement_lines tableCol (csv_variable csvCol)))
             (zip tableColumns csvHeaders)"
    by (simp add: buildColumnMappings_def setStatement_def zip_map2 split_def comp_def)
  have prot: "code_lines (statement_lines tableCol v) =
          [quoted tableCol @ '' = CASE'']
          @ concat (map (branch_lines v)
              [NullBlank, SentinelDate, IsoDateTime, StdDateTime, DateOnly])
          @ [''ELSE TRIM('' @ v @ '')'', ''END'']
        \<and> expression_branches tableCol
            = [NullBlank, SentinelDate, IsoDateTime, StdDateTime, DateOnly]
        \<and> (digits s \<longrightarrow> coerce (expression_branches tableCol) (Some s) = SqlText s)"
    if c: "tableCol = ''StockId'' \<or> tableCol = ''ItemCode''"
  proof -
    from c have p: "isProtectedColumn tableCol"
      by (simp add: isProtectedColumn_def)
    then have e: "expression_branches tableCol
          = [NullBlank, SentinelDate, IsoDateTime, StdDateTime, DateOnly]"
      by (simp add: expression_branches_def)
    from code_lines_protected [OF p, of v] case_value_digits(1) [of s]
    show ?thesis unfolding e by (simp add: coerce_def)
  qed
  have unprot: "code_lines (statement_lines tableCol v) =
          [quoted tableCol @ '' = CASE'']
          @ concat (map (branch_lines v)
              [NullBlank, BooleanWord, SentinelDate, IsoDateTime, StdDateTime, DateOnly,
               PureInteger, PureDecimal])
          @ [''ELSE TRIM('' @ v @ '')'', ''END'']
        \<and> expression_branches tableCol
            = [NullBlank, BooleanWord, SentinelDate, IsoDateTime, StdDateTime, DateOnly,
               PureInteger, PureDecimal]
        \<and> (digits s \<longrightarrow>
             coerce (expression_branches tableCol) (Some s) = SqlInteger (number_of s))"
    if c: "tableCol \<noteq> ''StockId'' \<and> tableCol \<noteq> ''ItemCode''"
  proof -
    from c have p: "\<not> isProtectedColumn tableCol"
      by (simp add: isProtectedColumn_def)
    then have e: "expression_branches tableCol
          = [NullBlank, BooleanWord, SentinelDate, IsoDateTime, StdDateTime, DateOnly,
             PureInteger, PureDecimal]"
      by (simp add: expression_branches_def)
    from code_lines_unprotected [OF p, of v] case_value_digits(2) [of s]
    show ?thesis unfolding e by (simp add: coerce_def)
  qed
  show ?thesis
    by (rule conjI, rule impI, erule prot, rule conjI, rule impI, erule unprot, rule m)
qed

text \<open>
  The bootstrap scenario: the field \<open>007\<close> under \<open>StockId\<close>, under \<open>ItemCode\<close> and
  under \<open>Qty\<close>; the lines written for \<open>ItemCode\<close>; and the assignments for a table of
  three columns loaded from a file of two.
\<close>

theorem protected_columns_skip_casts_witness:
  "coerce (expression_branches ''StockId'') (Some ''007'') = SqlText ''007''
   \<and> coerce (expression_branches ''ItemCode'') (Some ''007'') = SqlText ''007''
   \<and> coerce (expression_branches ''Qty'') (Some ''007'') = SqlInteger 7
   \<and> code_lines (statement_lines ''ItemCode'' ''@Item_Code'')
        = [''`ItemCode` = CASE'',
           ''WHEN @Item_Code IS NULL OR TRIM(@Item_Code) = '' @ sq @ sq @ '' THEN NULL'',
           ''WHEN @Item_Code LIKE '1899-12-30%' OR @Item_Code = '1900-01-01T00:00:00.000Z' OR @Item_Code = '0000-00-00' THEN NULL'',
           ''WHEN @Item_Code REGEXP '^[0-9]{4}-[0-9]{2}-[0-9]{2}T[0-9]{2}:[0-9]{2}:[0-9]{2}' THEN'',
           ''STR_TO_DATE(SUBSTRING(@Item_Code, 1, 19), '%Y-%m-%dT%H:%i:%s')'',
           ''WHEN @Item_Code REGEXP '^[0-9]{4}-[0-9]{2}-[0-9]{2} [0-9]{2}:[0-9]{2}:[0-9]{2}' THEN'',
           ''STR_TO_DATE(@Item_Code, '%Y-%m-%d %H:%i:%s')'',
           ''WHEN @Item_Code REGEXP '^[0-9]{4}-[0-9]{2}-[0-9]{2}$' THEN'',
           ''STR_TO_DATE(@Item_Code, '%Y-%m-%d')'',
           ''ELSE TRIM(@Item_Code)'',
           ''END'']
   \<and> setStatements (buildColumnMappings [''Item Code'', ''Qty''] [''ItemCode'', ''Qty'', ''Note''])
        = [join nl (statement_lines ''ItemCode'' ''@Item_Code''),
           join nl (statement_lines ''Qty'' ''@Qty'')]"
proof -
  have d: "digits ''007''" by (simp add: digits_def is_digit_def)
  have n: "number_of ''007'' = 7"
    by (simp add: number_of_def unsigned_part_def digit_value_def)
  note t1 = protected_columns_skip_casts [of "''StockId''" "''@StockId''" "''007''" "[]" "[]"]
  note t2 = protected_columns_skip_casts [of "''ItemCode''" "''@Item_Code''" "''007''"
      "[''Item Code'', ''Qty'']" "[''ItemCode'', ''Qty'', ''Note'']"]
  note t3 = protected_columns_skip_casts [of "''Qty''" "''@Qty''" "''007''" "[]" "[]"]
  have c1: "''StockId'' = ''StockId'' \<or> ''StockId'' = ''ItemCode''" by simp
  have c2: "''ItemCode'' = ''StockId'' \<or> ''ItemCode'' = ''ItemCode''" by simp
  have c3: "''Qty'' \<noteq> ''StockId'' \<and> ''Qty'' \<noteq> ''ItemCode''" by simp
  note p1 = t1 [THEN conjunct1, THEN mp, OF c1]
  note p2 = t2 [THEN conjunct1, THEN mp, OF c2]
  note p3 = t3 [THEN conjunct2, THEN conjunct1, THEN mp, OF c3]
  have a1: "coerce (expression_branches ''StockId'') (Some ''007'') = SqlText ''007''"
    by (rule p1 [THEN conjunct2, THEN conjunct2, THEN mp, OF d])
  have a2: "coerce (expression_branches ''ItemCode'') (Some ''007'') = SqlText ''007''"
    by (rule p2 [THEN conjunct2, THEN conjunct2, THEN mp, OF d])
  have a3: "coerce (expression_branches ''Qty'') (Some ''007'') = SqlInteger 7"
    using p3 [THEN conjunct2, THEN conjunct2, THEN mp, OF d] unfolding n .
  have l: "code_lines (statement_lines ''ItemCode'' ''@Item_Code'')
        = [''`ItemCode` = CASE'',
           ''WHEN @Item_Code IS NULL OR TRIM(@Item_Code) = '' @ sq @ sq @ '' THEN NULL'',
           ''WHEN @Item_Code LIKE '1899-12-30%' OR @Item_Code = '1900-01-01T00:00:00.000Z' OR @Item_Code = '0000-00-00' THEN NULL'',
           ''WHEN @Item_Code REGEXP '^[0-9]{4}-[0-9]{2}-[0-9]{2}T[0-9]{2}:[0-9]{2}:[0-9]{2}' THEN'',
           ''STR_TO_DATE(SUBSTRING(@Item_Code, 1, 19), '%Y-%m-%dT%H:%i:%s')'',
           ''WHEN @Item_Code REGEXP '^[0-9]{4}-[0-9]{2}-[0-9]{2} [0-9]{2}:[0-9]{2}:[0-9]{2}' THEN'',
           ''STR_TO_DATE(@Item_Code, '%Y-%m-%d %H:%i:%s')'',
           ''WHEN @Item_Code REGEXP '^[0-9]{4}-[0-9]{2}-[0-9]{2}$' THEN'',
           ''STR_TO_DATE(@Item_Code, '%Y-%m-%d')'',
           ''ELSE TRIM(@Item_Code)'',
           ''END'']"
    unfolding p2 [THEN conjunct1] by (simp add: branch_lines_def quoted_def)
  have v: "csv_variable ''Item Code'' = ''@Item_Code''" "csv_variable ''Qty'' = ''@Qty''"
    by (simp_all add: csv_variable_def sanitise_def is_letter_def is_digit_def
        is_lower_def is_upper_def)
  have b: "setStatements (buildColumnMappings [''Item Code'', ''Qty''] [''ItemCode'', ''Qty'', ''Note''])
        = [join nl (statement_lines ''ItemCode'' ''@Item_Code''),
           join nl (statement_lines ''Qty'' ''@Qty'')]"
    unfolding t2 [THEN conjunct2, THEN conjunct2] by (simp add: v)
  show ?thesis
    by (intro conjI) (rule a1, rule a2, rule a3, rule l, rule b)
qed

section \<open>Reassembly of a chunked upload\<close>

lemma write_chunks_all:
  assumes "\<forall>i\<in>set is. \<exists>c. map_of rcv i = Some c \<and> c \<noteq> []"
  shows "write_chunks decode p rcv is
         = (map (\<lambda>i. WriteFile p (decode (the (map_of rcv i)))) is, None)"
  using assms by (induction "is") auto

lemma map_of_received:
  "i \<in> set xs \<Longrightarrow> map_of (received contents xs) i = Some (contents ! i)"
  by (induction xs) (auto simp: received_def)

lemma file_content_writes:
  "file_content p acc (map (\<lambda>c. WriteFile p (decode c)) cs @ rest)
     = file_content p (acc @ concat (map decode cs)) rest"
  by (induction cs arbitrary: acc) simp_all

text \<open>While chunks are outstanding, a message only adds its chunk to the accumulator.\<close>

lemma upload_run_pending:
  assumes "map_of (csvChunkStorage sock) (chunkKey (socket_appId sock) fileName) = Some info"
    and "distinct (map fst (chunks info) @ xs)"
    and "length (chunks info) + length xs < length contents"
    and "\<forall>x\<in>set xs. totals x = length contents"
  shows "upload_run decode sock (map (chunk_message tableName fileName totals contents) xs)
         = (sock\<lparr>csvChunkStorage :=
                    AList.update (chunkKey (socket_appId sock) fileName)
                      (info\<lparr>chunks := chunks info @ received contents xs\<rparr>)
                      (csvChunkStorage sock)\<rparr>, [])"
  using assms
proof (induction xs arbitrary: sock info)
  case Nil
  then show ?case
    by (simp add: received_def update_triv)
next
  case (Cons x xs)
  let ?key = "chunkKey (socket_appId sock) fileName"
  let ?info' = "info\<lparr>chunks := chunks info @ [(x, contents ! x)]\<rparr>"
  let ?sock' = "sock\<lparr>csvChunkStorage := AList.update ?key ?info' (csvChunkStorage sock)\<rparr>"
  from Cons.prems(2) have fresh: "x \<notin> fst ` set (chunks info)" by auto
  then have u: "AList.update x (contents ! x) (chunks info) = chunks info @ [(x, contents ! x)]"
    by (rule update_fresh)
  from Cons.prems(3) have "Suc (length (chunks info)) \<noteq> length contents" by simp
  with Cons.prems(4) have ne: "Suc (length (chunks info)) \<noteq> totals x" by simp
  have step: "csv_bulk_upload_chunk decode sock (chunk_message tableName fileName totals contents x)
              = (?sock', [])"
    using Cons.prems(1) ne
    by (simp add: csv_bulk_upload_chunk_def chunk_message_def Let_def u)
  have 1: "map_of (csvChunkStorage ?sock') (chunkKey (socket_appId ?sock') fileName) = Some ?info'"
    by (simp add: update_conv')
  have 2: "distinct (map fst (chunks ?info') @ xs)"
    using Cons.prems(2) by auto
  have 3: "length (chunks ?info') + length xs < length contents"
    using Cons.prems(3) by simp
  have 4: "\<forall>x\<in>set xs. totals x = length contents"
    using Cons.prems(4) by simp
  from Cons.IH [OF 1 2 3 4] step show ?case
    by (simp add: received_def)
qed

text \<open>The message that completes the set writes the file.\<close>

lemma upload_last:
  assumes st: "map_of (csvChunkStorage sock) (chunkKey (socket_appId sock) fileName) = Some info"
    and rc: "chunks info = received contents xs"
    and d: "distinct (xs @ [x])"
    and cover: "set (xs @ [x]) = {0..<length contents}"
    and ne: "list_all (\<lambda>c. c \<noteq> []) contents"
    and tot: "totals x = length contents"
  shows "csv_bulk_upload_chunk decode sock (chunk_message tableName fileName totals contents x)
         = (sock\<lparr>csvChunkStorage :=
                    AList.delete (chunkKey (socket_appId sock) fileName) (csvChunkStorage sock)\<rparr>,
            OpenFile (uploads_path fileName)
            # map (\<lambda>c. WriteFile (uploads_path fileName) (decode c)) contents
            @ [CloseFile (uploads_path fileName),
               Emit (Csv_bulk_upload_response (ui_fileName info) True),
               SetTimeout 2000
                 (ProcessSingleCSVFile (socket_storeId sock) (ui_appId info)
                    (ui_tableName info) (ui_fileName info))])"
proof -
  let ?key = "chunkKey (socket_appId sock) fileName"
  let ?p = "uploads_path fileName"
  let ?rcv = "received contents (xs @ [x])"
  from d have fresh: "x \<notin> fst ` set (chunks info)"
    by (auto simp: rc received_def)
  then have u: "AList.update x (contents ! x) (chunks info) = ?rcv"
    by (simp add: update_fresh rc received_def)
  from d cover have len: "length (xs @ [x]) = length contents"
    using distinct_card [OF d] by simp
  then have l: "length ?rcv = length contents" by (simp add: received_def)
  have all: "\<forall>i\<in>set [0..<length contents]. \<exists>c. map_of ?rcv i = Some c \<and> c \<noteq> []"
  proof
    fix i assume "i \<in> set [0..<length contents]"
    then have i: "i < length contents" by simp
    with cover have "i \<in> set (xs @ [x])" by simp
    then have "map_of ?rcv i = Some (contents ! i)" by (rule map_of_received)
    moreover from ne i have "contents ! i \<noteq> []" by (simp add: list_all_length)
    ultimately show "\<exists>c. map_of ?rcv i = Some c \<and> c \<noteq> []" by simp
  qed
  have w: "write_chunks decode ?p ?rcv [0..<length contents]
           = (map (\<lambda>c. WriteFile ?p (decode c)) contents, None)"
  proof -
    have "map (\<lambda>i. WriteFile ?p (decode (the (map_of ?rcv i)))) [0..<length contents]
          = map (\<lambda>i. WriteFile ?p (decode (contents ! i))) [0..<length contents]"
    proof (rule map_cong [OF refl])
      fix i assume "i \<in> set [0..<length contents]"
      with cover have "i \<in> set (xs @ [x])" by simp
      then show "WriteFile ?p (decode (the (map_of ?rcv i))) = WriteFile ?p (decode (contents ! i))"
        by (simp add: map_of_received del: set_append)
    qed
    also have "\<dots> = map (\<lambda>c. WriteFile ?p (decode c)) (map (\<lambda>i. contents ! i) [0..<length contents])"
      by (simp add: comp_def)
    also have "\<dots> = map (\<lambda>c. WriteFile ?p (decode c)) contents"
      by (simp only: map_nth)
    finally show ?thesis
      using write_chunks_all [OF all, of decode ?p] by simp
  qed
  show ?thesis
    using st l w tot
    by (simp add: csv_bulk_upload_chunk_def chunk_message_def Let_def u delete_update_same
        del: upt_Suc)
qed

lemma upload_run_append:
  "upload_run decode sock (as @ bs)
     = (let (sock1, acts1) = upload_run decode sock as;
            (sock2, acts2) = upload_run decode sock1 bs
        in (sock2, acts1 @ acts2))"
  by (induction as arbitrary: sock) (simp_all add: split_def Let_def)

text \<open>
  Claim C8, as the code has it. A chunked upload is started by \<open>csv_bulk_upload_start\<close>
  under \<open>fileName\<close>, and its chunks \<open>contents\<close> arrive once each in any order
  \<open>arrival\<close> of the indices \<open>0..<length contents\<close>. The handler compares the number of
  stored chunks with the \<open>totalChunks\<close> of the message at hand, never with the number
  declared at the start, and its write loop takes an empty chunk for a missing one. So
  let every message carry the number of chunks as its \<open>totalChunks\<close>, and let no chunk be
  empty. Then the messages before the last one only fill the accumulator, and the last
  one opens \<open>uploads/fileName\<close>, writes the decoded chunks in ascending order of index,
  closes the file, deletes the accumulator, answers \<open>csv_bulk_upload_response\<close> with
  success and starts the import of the file from a timer of two seconds. Whatever the
  file held before, it then holds the decoded chunks one after the other: the source
  file, when chunk \<open>i\<close> is the base64 text of its \<open>i\<close>-th slice. The checks of the written
  file between the close and the answer are taken to succeed.
\<close>

theorem chunked_upload_reassembles:
  assumes arrival: "distinct arrival" "set arrival = {0..<length contents}"
    and chunks: "contents \<noteq> []" "list_all (\<lambda>c. c \<noteq> []) contents"
    and totals: "\<forall>i<length contents. totals i = length contents"
    and pieces: "map decode contents = pieces"
    and name: "us_fileName start = fileName"
  shows "upload_run decode (csv_bulk_upload_start sock start)
           (chunk_messages tableName fileName totals contents arrival)
         = (sock\<lparr>csvChunkStorage :=
                    AList.delete (chunkKey (socket_appId sock) fileName) (csvChunkStorage sock)\<rparr>,
            OpenFile (uploads_path fileName)
            # map (WriteFile (uploads_path fileName)) pieces
            @ [CloseFile (uploads_path fileName),
               Emit (Csv_bulk_upload_response fileName True),
               SetTimeout 2000
                 (ProcessSingleCSVFile (socket_storeId sock) (socket_appId sock)
                    (us_tableName start) fileName)])
         \<and> file_content (uploads_path fileName) previous
               (snd (upload_run decode (csv_bulk_upload_start sock start)
                       (chunk_messages tableName fileName totals contents arrival)))
             = concat pieces"
proof -
  let ?key = "chunkKey (socket_appId sock) fileName"
  let ?p = "uploads_path fileName"
  let ?info = "\<lparr>ui_appId = socket_appId sock, ui_tableName = us_tableName start,
                ui_fileName = fileName, ui_totalChunks = us_totalChunks start,
                ui_fileSizeBytes = us_fileSizeBytes start, ui_rowCount = us_rowCount start,
                chunks = []\<rparr>"
  let ?sock0 = "csv_bulk_upload_start sock start"
  let ?msg = "chunk_message tableName fileName totals contents"
  let ?acts = "OpenFile ?p # map (WriteFile ?p) pieces
               @ [CloseFile ?p, Emit (Csv_bulk_upload_response fileName True),
                  SetTimeout 2000
                    (ProcessSingleCSVFile (socket_storeId sock) (socket_appId sock)
                       (us_tableName start) fileName)]"
  from arrival have len: "length arrival = length contents"
    using distinct_card [OF arrival(1)] by simp
  with chunks(1) have "arrival \<noteq> []" by auto
  then obtain xs x where ar: "arrival = xs @ [x]"
    by (cases arrival rule: rev_cases) auto
  have app: "socket_appId ?sock0 = socket_appId sock"
    and sto: "socket_storeId ?sock0 = socket_storeId sock"
    by (simp_all add: csv_bulk_upload_start_def)
  have st0: "map_of (csvChunkStorage ?sock0) (chunkKey (socket_appId ?sock0) fileName) = Some ?info"
    by (simp add: csv_bulk_upload_start_def name update_conv')
  have d0: "distinct (map fst (chunks ?info) @ xs)"
    using arrival(1) ar by simp
  have l0: "length (chunks ?info) + length xs < length contents"
    using len ar by simp
  let ?info1 = "?info\<lparr>chunks := received contents xs\<rparr>"
  let ?sock1 = "?sock0\<lparr>csvChunkStorage :=
                   AList.update ?key ?info1 (csvChunkStorage ?sock0)\<rparr>"
  from arrival(2) ar have sub: "set (xs @ [x]) \<subseteq> {0..<length contents}"
    by simp
  have t0: "\<forall>x\<in>set xs. totals x = length contents"
    using totals sub by auto
  have t1: "totals x = length contents"
    using totals sub by auto
  have run1: "upload_run decode ?sock0 (map ?msg xs) = (?sock1, [])"
    using upload_run_pending [where totals = totals and decode = decode
        and tableName = tableName, OF st0 d0 l0 t0] by (simp add: app)
  have app1: "socket_appId ?sock1 = socket_appId sock"
    and sto1: "socket_storeId ?sock1 = socket_storeId sock"
    by (simp_all add: app sto)
  have st1: "map_of (csvChunkStorage ?sock1) (chunkKey (socket_appId ?sock1) fileName) = Some ?info1"
    by (simp add: update_conv' app)
  have rc1: "chunks ?info1 = received contents xs" by simp
  have d1: "distinct (xs @ [x])" using arrival(1) ar by simp
  have c1: "set (xs @ [x]) = {0..<length contents}" using arrival(2) ar by simp
  have fin: "AList.delete ?key (csvChunkStorage ?sock1) = AList.delete ?key (csvChunkStorage sock)"
    by (simp add: delete_update_same csv_bulk_upload_start_def name)
  have upd: "?sock1\<lparr>csvChunkStorage := Y\<rparr> = sock\<lparr>csvChunkStorage := Y\<rparr>" for Y
    by (simp add: csv_bulk_upload_start_def)
  have w: "map (\<lambda>c. WriteFile ?p (decode c)) contents = map (WriteFile ?p) pieces"
    using pieces by (auto simp: comp_def)
  have sel: "ui_fileName ?info1 = fileName" "ui_appId ?info1 = socket_appId sock"
    "ui_tableName ?info1 = us_tableName start"
    by simp_all
  have last: "csv_bulk_upload_chunk decode ?sock1 (?msg x)
              = (sock\<lparr>csvChunkStorage := AList.delete ?key (csvChunkStorage sock)\<rparr>, ?acts)"
    using upload_last [where totals = totals and x = x and decode = decode
        and tableName = tableName, OF st1 rc1 d1 c1 chunks(2) t1]
    unfolding app1 sto1 fin upd w sel .
  have run: "upload_run decode ?sock0 (chunk_messages tableName fileName totals contents arrival)
             = (sock\<lparr>csvChunkStorage := AList.delete ?key (csvChunkStorage sock)\<rparr>, ?acts)"
    by (simp only: chunk_messages_def ar map_append list.map upload_run_append run1
        upload_run.simps last Let_def prod.case append_Nil append_Nil2)
  have "file_content ?p previous ?acts = concat pieces"
    using file_content_writes [of ?p "[]" "\<lambda>c. c" pieces] by simp
  with run show ?thesis by simp
qed

theorem chunked_upload_reassembles_witness:
  "upload_run (\<lambda>c. c) (csv_bulk_upload_start shop_session
       \<lparr>us_tableName = ''StockItems'', us_fileName = ''StockItems.csv'', us_totalChunks = 3,
        us_fileSizeBytes = 6, us_rowCount = 1\<rparr>)
     (chunk_messages ''StockItems'' ''StockItems.csv'' (\<lambda>i. 3) [''ab'', ''cd'', ''ef''] [2, 0, 1])
   = (shop_session,
      [OpenFile ''uploads/StockItems.csv'',
       WriteFile ''uploads/StockItems.csv'' ''ab'',
       WriteFile ''uploads/StockItems.csv'' ''cd'',
       WriteFile ''uploads/StockItems.csv'' ''ef'',
       CloseFile ''uploads/StockItems.csv'',
       Emit (Csv_bulk_upload_response ''StockItems.csv'' True),
       SetTimeout 2000 (ProcessSingleCSVFile (Some ''239'') (Some ''A'') ''StockItems'' ''StockItems.csv'')])
   \<and> file_content ''uploads/StockItems.csv'' ''stale''
         (snd (upload_run (\<lambda>c. c) (csv_bulk_upload_start shop_session
            \<lparr>us_tableName = ''StockItems'', us_fileName = ''StockItems.csv'', us_totalChunks = 3,
             us_fileSizeBytes = 6, us_rowCount = 1\<rparr>)
            (chunk_messages ''StockItems'' ''StockItems.csv'' (\<lambda>i. 3) [''ab'', ''cd'', ''ef''] [2, 0, 1])))
       = ''abcdef''"
proof -
  have a: "distinct [2, 0, 1::nat]" by simp
  have b: "set [2, 0, 1::nat] = {0..<length [''ab'', ''cd'', ''ef'']}" by auto
  have c: "[''ab'', ''cd'', ''ef''] \<noteq> []" by simp
  have d: "list_all (\<lambda>c. c \<noteq> []) [''ab'', ''cd'', ''ef'']" by simp
  have t: "\<forall>i<length [''ab'', ''cd'', ''ef'']. (\<lambda>i. 3) i = length [''ab'', ''cd'', ''ef'']"
    by simp
  have e: "map (\<lambda>c. c) [''ab'', ''cd'', ''ef''] = [''ab'', ''cd'', ''ef'']" by simp
  have f: "us_fileName \<lparr>us_tableName = ''StockItems'', us_fileName = ''StockItems.csv'',
             us_totalChunks = 3, us_fileSizeBytes = 6, us_rowCount = 1\<rparr> = ''StockItems.csv''"
    by simp
  show ?thesis
    using chunked_upload_reassembles [OF a b c d t e f, of shop_session "''StockItems''" "''stale''"]
    by (simp add: shop_session_def new_session_def uploads_path_def)
qed

text \<open>
  The claim as the spec words it asks only that the chunks carry the indices and arrive
  in some order, and has the count that was announced decide. Two uploads of a file of
  two chunks, each announced with two chunks. In the first the second chunk is empty
  and every message has the right \<open>totalChunks\<close>: when the second chunk is stored the
  count is reached, the first chunk is written, the empty one is taken for missing, the
  answer is a failure, the accumulator stays with both chunks, the file is not closed
  and no import is scheduled. In the second the messages say \<open>totalChunks = 1\<close>: the
  file is written, acknowledged and handed to the import after its first chunk, and the
  second message finds no accumulator and is dropped.
\<close>

theorem chunked_upload_counterexample:
  "upload_run (\<lambda>c. c) (csv_bulk_upload_start shop_session
       \<lparr>us_tableName = ''StockItems'', us_fileName = ''StockItems.csv'', us_totalChunks = 2,
        us_fileSizeBytes = 2, us_rowCount = 1\<rparr>)
     (chunk_messages ''StockItems'' ''StockItems.csv'' (\<lambda>i. 2) [''ab'', []] [0, 1])
   = (shop_session\<lparr>csvChunkStorage :=
        [(''A_StockItems.csv'',
          \<lparr>ui_appId = Some ''A'', ui_tableName = ''StockItems'', ui_fileName = ''StockItems.csv'',
           ui_totalChunks = 2, ui_fileSizeBytes = 2, ui_rowCount = 1,
           chunks = [(0, ''ab''), (1, [])]\<rparr>)]\<rparr>,
      [OpenFile ''uploads/StockItems.csv'',
       WriteFile ''uploads/StockItems.csv'' ''ab'',
       Emit (Csv_bulk_upload_response ''StockItems.csv'' False)])
   \<and> upload_run (\<lambda>c. c) (csv_bulk_upload_start shop_session
       \<lparr>us_tableName = ''StockItems'', us_fileName = ''StockItems.csv'', us_totalChunks = 2,
        us_fileSizeBytes = 4, us_rowCount = 1\<rparr>)
     (chunk_messages ''StockItems'' ''StockItems.csv'' (\<lambda>i. 1) [''ab'', ''cd''] [0, 1])
   = (shop_session,
      [OpenFile ''uploads/StockItems.csv'',
       WriteFile ''uploads/StockItems.csv'' ''ab'',
       CloseFile ''uploads/StockItems.csv'',
       Emit (Csv_bulk_upload_response ''StockItems.csv'' True),
       SetTimeout 2000
         (ProcessSingleCSVFile (Some ''239'') (Some ''A'') ''StockItems'' ''StockItems.csv'')])"
  by code_simp

section \<open>What a connection that has not identified is answered\<close>




text \<open>
  The same connection is answered that a translated schema change was skipped.
\<close>

lemma sync_ddl_operation_unidentified:
  "sync_ddl_operation db0 pooled (\<lambda>database ddl. Inr (1::nat)) new_session (Some skip_payload)
   = (new_session, [Emit (Ddl_sync_success (Some ''d1'') True)])"
  by code_simp

end
